theory Spec2Isabelle
  imports Complex_Main
begin

section \<open>Data model\<close>

text \<open>
  The exceptions the code of \<^verbatim>\<open>cluster.py\<close> can end with. \<open>OtherException\<close> stands for
  whatever an external collaborator (sklearn, scipy, the volume and subject classes)
  raises.
\<close>

datatype error =
    IndexError
  | TypeError
  | ValueError
  | AttributeError
  | UnboundLocalError
  | OtherException string
  | SystemExit
  | KeyboardInterrupt

text \<open>
  \<^verbatim>\<open>except Exception\<close> catches the subclasses of \<^verbatim>\<open>Exception\<close>; \<^verbatim>\<open>SystemExit\<close> and
  \<^verbatim>\<open>KeyboardInterrupt\<close> derive from \<^verbatim>\<open>BaseException\<close> only and pass through it.
\<close>

fun is_exception :: "error \<Rightarrow> bool" where
  "is_exception SystemExit = False"
| "is_exception KeyboardInterrupt = False"
| "is_exception _ = True"

text \<open>
  A three-dimensional numpy array: its shape \<open>(nz, ny, nx)\<close> and its entries in C order
  (depth, then row, then column), which is the order of \<^verbatim>\<open>array[d, r, c]\<close>.
\<close>

record 'a ndarray =
  shape :: "nat \<times> nat \<times> nat"
  flat :: "'a list"

definition wf_ndarray :: "'a ndarray \<Rightarrow> bool" where
  "wf_ndarray a = (case shape a of (nz, ny, nx) \<Rightarrow> length (flat a) = nz * ny * nx)"

text \<open>\<^verbatim>\<open>a[d, r, c]\<close> with non-negative indices; out of range raises IndexError.\<close>

definition getitem3 :: "'a ndarray \<Rightarrow> nat \<Rightarrow> nat \<Rightarrow> nat \<Rightarrow> error + 'a" where
  "getitem3 a d r c =
     (case shape a of (nz, ny, nx) \<Rightarrow>
        if d < nz \<and> r < ny \<and> c < nx then Inr (flat a ! ((d * ny + r) * nx + c))
        else Inl IndexError)"

text \<open>
  The frame of reference: \<open>size_xyz\<close> is the source's \<^verbatim>\<open>size\<close>, in (x, y, z) order.
\<close>

record frameofreference =
  size_xyz :: "nat \<times> nat \<times> nat"
  spacing :: "real \<times> real \<times> real"

text \<open>
  A volume is an array with a frame of reference. The type parameter \<open>'f\<close> is
  \<^typ>\<open>frameofreference\<close> for a volume read by value, and an address for a volume
  whose frame of reference is an object of the store (see the assembler below).
\<close>

record ('f, 'a) volume =
  frameofreference :: 'f
  array :: "'a ndarray"

text \<open>
  A region of interest. \<open>makeDenseMask\<close> belongs to the volume classes of the module
  \<^verbatim>\<open>rttypes\<close>, which \<^verbatim>\<open>cluster.py\<close> imports; it is a field here: any function from a
  frame of reference to a dense mask volume.
\<close>

record roi =
  roi_frameofreference :: frameofreference
  makeDenseMask :: "frameofreference \<Rightarrow> (frameofreference, int) volume"

section \<open>Mask projector\<close>

text \<open>
  The three nested \<^verbatim>\<open>for d in range(size_z): for r in range(size_y): for c in range(size_x)\<close>
  loops visit these indices, in this order.
\<close>

definition voxel_indices :: "nat \<times> nat \<times> nat \<Rightarrow> (nat \<times> nat \<times> nat) list" where
  "voxel_indices sz = (case sz of (size_x, size_y, size_z) \<Rightarrow>
     List.product [0..<size_z] (List.product [0..<size_y] [0..<size_x]))"

text \<open>
  Modelled from the spec: \<^verbatim>\<open>volume.vectorize()\<close> of the volume classes (module
  \<^verbatim>\<open>rttypes\<close>, imported by \<^verbatim>\<open>cluster.py\<close>): "if mask is absent, flattens the volume in
  its native traversal order".
\<close>

definition vectorize :: "(frameofreference, 'a) volume \<Rightarrow> 'a list" where
  "vectorize volume = flat (array volume)"

text \<open>
  Modelled from the spec: \<^verbatim>\<open>MaskableVolume().fromArray(vector, frameofreference)\<close> of the
  volume classes: "reshapes directly to \<open>target_for\<close>'s size". A vector of another length
  cannot be reshaped.
\<close>

definition fromArray :: "'a list \<Rightarrow> frameofreference \<Rightarrow> error + (frameofreference, 'a) volume" where
  "fromArray vec fref = (case size_xyz fref of (size_x, size_y, size_z) \<Rightarrow>
     if length vec = size_z * size_y * size_x
     then Inr \<lparr>frameofreference = fref, array = \<lparr>shape = (size_z, size_y, size_x), flat = vec\<rparr>\<rparr>
     else Inl ValueError)"

text \<open>The body of the loops of \<^verbatim>\<open>create_pruned_vector\<close>, with the list built so far.\<close>

fun prune_loop ::
  "int ndarray \<Rightarrow> 'a ndarray \<Rightarrow> (nat \<times> nat \<times> nat) list \<Rightarrow> 'a list \<Rightarrow> error + 'a list" where
  "prune_loop maskarr arr [] pruned_vector = Inr pruned_vector"
| "prune_loop maskarr arr ((d, r, c) # rest) pruned_vector =
     (case getitem3 maskarr d r c of
        Inl e \<Rightarrow> Inl e
      | Inr m \<Rightarrow>
          if m = 1 then
            (case getitem3 arr d r c of
               Inl e \<Rightarrow> Inl e
             | Inr x \<Rightarrow> prune_loop maskarr arr rest (pruned_vector @ [x]))
          else prune_loop maskarr arr rest pruned_vector)"

text \<open>
  \<^verbatim>\<open>create_pruned_vector(volume, roi)\<close>. The result is the array of shape (N, 1) that
  \<^verbatim>\<open>reshape((-1, 1))\<close> returns, given by its N entries in order.
\<close>

definition create_pruned_vector ::
  "(frameofreference, 'a) volume \<Rightarrow> roi option \<Rightarrow> error + 'a list" where
  "create_pruned_vector volume roi =
     (case roi of
        None \<Rightarrow> Inr (vectorize volume)
      | Some m \<Rightarrow>
          let densemaskvolume = makeDenseMask m (frameofreference volume)
          in prune_loop (array densemaskvolume) (array volume)
               (voxel_indices (size_xyz (frameofreference volume))) [])"

text \<open>
  What \<^verbatim>\<open>expand_pruned_vector\<close> is given as \<^verbatim>\<open>pruned_vector\<close>: a one-dimensional array of
  N entries (the labels that k-means predicts), or an array of shape (N, 1) (what
  \<^verbatim>\<open>create_pruned_vector\<close> returns after \<^verbatim>\<open>reshape((-1, 1))\<close>), each given by its N entries.
\<close>

datatype 'a pyvector = Vector "'a list" | Column "'a list"

fun entries :: "'a pyvector \<Rightarrow> 'a list" where
  "entries (Vector xs) = xs"
| "entries (Column xs) = xs"

text \<open>
  An element of the Python list \<^verbatim>\<open>expanded_vector\<close>: a scalar, or a one-element array.
\<close>

datatype 'a item = Scalar 'a | Row1 'a

text \<open>
  \<^verbatim>\<open>pruned_vector[pruned_idx]\<close>: a scalar of a one-dimensional array, the one-element row
  of an (N, 1) array; past the end, IndexError.
\<close>

fun vector_getitem :: "'a pyvector \<Rightarrow> nat \<Rightarrow> error + 'a item" where
  "vector_getitem (Vector xs) i = (if i < length xs then Inr (Scalar (xs ! i)) else Inl IndexError)"
| "vector_getitem (Column xs) i = (if i < length xs then Inr (Row1 (xs ! i)) else Inl IndexError)"

text \<open>
  \<^verbatim>\<open>np.array(expanded_vector)\<close>. A list of scalars becomes a one-dimensional array, a list
  of one-element arrays an (N, 1) array. A list that mixes the two has no shape: NumPy
  from 1.24 on raises ValueError (before, it built an array of Python objects, which is
  not an array of numbers either); the ValueError is what is modelled.
\<close>

fun scalars :: "'a item list \<Rightarrow> 'a list option" where
  "scalars [] = Some []"
| "scalars (Scalar x # rest) = map_option ((#) x) (scalars rest)"
| "scalars (Row1 x # rest) = None"

fun rows :: "'a item list \<Rightarrow> 'a list option" where
  "rows [] = Some []"
| "rows (Row1 x # rest) = map_option ((#) x) (rows rest)"
| "rows (Scalar x # rest) = None"

definition np_array :: "'a item list \<Rightarrow> error + 'a pyvector" where
  "np_array items =
     (case scalars items of
        Some xs \<Rightarrow> Inr (Vector xs)
      | None \<Rightarrow> (case rows items of Some xs \<Rightarrow> Inr (Column xs) | None \<Rightarrow> Inl ValueError))"

text \<open>
  The body of the loops of \<^verbatim>\<open>expand_pruned_vector\<close>, with the list built so far and
  \<^verbatim>\<open>pruned_idx\<close>.
\<close>

fun expand_loop ::
  "int ndarray \<Rightarrow> 'a pyvector \<Rightarrow> 'a \<Rightarrow> (nat \<times> nat \<times> nat) list \<Rightarrow> 'a item list \<Rightarrow> nat
     \<Rightarrow> error + 'a item list" where
  "expand_loop maskarr pruned_vector fill_value [] expanded_vector pruned_idx = Inr expanded_vector"
| "expand_loop maskarr pruned_vector fill_value ((d, r, c) # rest) expanded_vector pruned_idx =
     (case getitem3 maskarr d r c of
        Inl e \<Rightarrow> Inl e
      | Inr m \<Rightarrow>
          if m = 1 then
            (case vector_getitem pruned_vector pruned_idx of
               Inl e \<Rightarrow> Inl e
             | Inr x \<Rightarrow>
                 expand_loop maskarr pruned_vector fill_value rest
                   (expanded_vector @ [x]) (pruned_idx + 1))
          else expand_loop maskarr pruned_vector fill_value rest
                 (expanded_vector @ [Scalar fill_value]) pruned_idx)"

text \<open>
  \<^verbatim>\<open>expand_pruned_vector(pruned_vector, roi, frameofreference, fill_value)\<close>. The array
  handed to \<^verbatim>\<open>fromArray\<close> is reshaped by its entries, whatever its own shape.
\<close>

definition expand_pruned_vector ::
  "'a pyvector \<Rightarrow> roi option \<Rightarrow> frameofreference \<Rightarrow> 'a \<Rightarrow> error + (frameofreference, 'a) volume" where
  "expand_pruned_vector pruned_vector roi fref fill_value =
     (case roi of
        None \<Rightarrow> fromArray (entries pruned_vector) fref
      | Some m \<Rightarrow>
          let densemaskvolume = makeDenseMask m fref
          in (case expand_loop (array densemaskvolume) pruned_vector fill_value
                     (voxel_indices (size_xyz fref)) [] 0 of
                Inl e \<Rightarrow> Inl e
              | Inr expanded_list \<Rightarrow>
                  (case np_array expanded_list of
                     Inl e \<Rightarrow> Inl e
                   | Inr expanded_vector \<Rightarrow> fromArray (entries expanded_vector) fref)))"

section \<open>Feature matrix assembler\<close>

text \<open>
  Frames of reference are objects: \<^verbatim>\<open>frameofreference = highest_res_volume.frameofreference\<close>
  binds a second name to the object of the volume, and the assignment to its
  \<^verbatim>\<open>spacing\<close> that follows is seen through both. The store maps the address of a frame of
  reference to its current value; an input volume holds the address of its own.
\<close>

type_synonym addr = nat

type_synonym store = "addr \<Rightarrow> frameofreference"

definition load :: "store \<Rightarrow> (addr, 'a) volume \<Rightarrow> (frameofreference, 'a) volume" where
  "load h v = \<lparr>frameofreference = h (frameofreference v), array = array v\<rparr>"

text \<open>
  The collaborators of the assembler that are not in \<^verbatim>\<open>cluster.py\<close>: the resampling and
  the masked flattening of the volume classes, the label generator, numpy's
  \<^verbatim>\<open>nan_to_num\<close> (entry by entry) and the sparse PCA of sklearn. Each is a parameter; the
  ones that can raise return a sum. \<open>float_round\<close> is the rounding of numpy's arithmetic:
  the result of a multiplication of two numbers is their exact product, rounded by it
  (to the nearest float64 for floats, not at all for integers).
\<close>

record 'a collaborators =
  conformTo ::
    "(frameofreference, 'a) volume \<Rightarrow> frameofreference \<Rightarrow> error + (frameofreference, 'a) volume"
  vectorize_roi :: "(frameofreference, 'a) volume \<Rightarrow> roi option \<Rightarrow> error + 'a list"
  generate_heatmap_label :: "(frameofreference, 'a) volume \<Rightarrow> string"
  nan_to_num :: "'a \<Rightarrow> 'a"
  SparsePCA_fit_transform :: "'a list list \<Rightarrow> error + 'a list list"
  float_round :: "real \<Rightarrow> real"

text \<open>
  \<^verbatim>\<open>np.product(volume.frameofreference.spacing)\<close>: the three components multiplied from
  left to right, each product rounded.
\<close>

definition voxel_volume :: "'a collaborators \<Rightarrow> frameofreference \<Rightarrow> real" where
  "voxel_volume ext f =
     (case spacing f of (a, b, c) \<Rightarrow> float_round ext (float_round ext (a * b) * c))"

text \<open>
  The scan \<^verbatim>\<open>for volume in feature_volumes[1:]\<close> for the highest resolution. An entry
  that is \<^verbatim>\<open>None\<close> has no \<^verbatim>\<open>frameofreference\<close>: AttributeError.
\<close>

fun scan_highest_res ::
  "'a collaborators \<Rightarrow> store \<Rightarrow> (addr, 'a) volume \<Rightarrow> real \<Rightarrow> (addr, 'a) volume option list
     \<Rightarrow> error + (addr, 'a) volume" where
  "scan_highest_res ext h highest_res_volume highest_res [] = Inr highest_res_volume"
| "scan_highest_res ext h highest_res_volume highest_res (None # rest) = Inl AttributeError"
| "scan_highest_res ext h highest_res_volume highest_res (Some volume # rest) =
     (let res = voxel_volume ext (h (frameofreference volume))
      in if res < highest_res then scan_highest_res ext h volume res rest
         else scan_highest_res ext h highest_res_volume highest_res rest)"

definition find_highest_res ::
  "'a collaborators \<Rightarrow> store \<Rightarrow> (addr, 'a) volume option list \<Rightarrow> error + (addr, 'a) volume" where
  "find_highest_res ext h feature_volumes =
     (case feature_volumes of
        [] \<Rightarrow> Inl IndexError
      | None # rest \<Rightarrow> Inl AttributeError
      | Some v0 # rest \<Rightarrow>
          scan_highest_res ext h v0 (voxel_volume ext (h (frameofreference v0))) rest)"

text \<open>
  The choice of the common frame of reference (the branch on \<^verbatim>\<open>roi\<close> of
  \<^verbatim>\<open>create_feature_matrix\<close>): the store after it, and the value of the chosen frame.
\<close>

definition select_frameofreference ::
  "'a collaborators \<Rightarrow> store \<Rightarrow> (addr, 'a) volume option list \<Rightarrow> roi option
     \<Rightarrow> error + store \<times> frameofreference" where
  "select_frameofreference ext h feature_volumes roi =
     (case roi of
        Some m \<Rightarrow> Inr (h, roi_frameofreference m)
      | None \<Rightarrow>
          (case find_highest_res ext h feature_volumes of
             Inl e \<Rightarrow> Inl e
           | Inr highest_res_volume \<Rightarrow>
               let a = frameofreference highest_res_volume;
                   h' = h(a := (h a)\<lparr>spacing := (1, 1, 1)\<rparr>)
               in Inr (h', h' a)))"

text \<open>
  \<^verbatim>\<open>np.concatenate(columns, axis=1)\<close> of (N, 1) arrays, each given by its entries: the
  rows of the (N, D) result. An empty list and columns of different lengths raise
  ValueError.
\<close>

definition concatenate_axis1 :: "'a list list \<Rightarrow> error + 'a list list" where
  "concatenate_axis1 cols =
     (case cols of
        [] \<Rightarrow> Inl ValueError
      | c0 # _ \<Rightarrow>
          if list_all (\<lambda>c. length c = length c0) cols
          then Inr (map (\<lambda>i. map (\<lambda>c. c ! i) cols) [0..<length c0])
          else Inl ValueError)"

text \<open>
  The loop \<^verbatim>\<open>for i, vol in enumerate(feature_volumes)\<close>, with the three lists built so
  far.
\<close>

fun conform_loop ::
  "'a collaborators \<Rightarrow> store \<Rightarrow> frameofreference \<Rightarrow> roi option \<Rightarrow> (addr, 'a) volume option list
     \<Rightarrow> 'a list list \<times> 'a list list \<times> string list
     \<Rightarrow> error + 'a list list \<times> 'a list list \<times> string list" where
  "conform_loop ext h fref roi [] acc = Inr acc"
| "conform_loop ext h fref roi (None # rest) acc = conform_loop ext h fref roi rest acc"
| "conform_loop ext h fref roi (Some vol # rest)
       (conformed_feature_list, dense_feature_list, feature_column_labels) =
     (case conformTo ext (load h vol) fref of
        Inl e \<Rightarrow> Inl e
      | Inr conformed_volume \<Rightarrow>
          let ref_shape = (case size_xyz fref of (x, y, z) \<Rightarrow> (z, y, x))
          in if shape (array conformed_volume) \<noteq> ref_shape
             then conform_loop ext h fref roi rest
                    (conformed_feature_list, dense_feature_list, feature_column_labels)
             else
               (case create_pruned_vector conformed_volume roi of
                  Inl e \<Rightarrow> Inl e
                | Inr pruned_feature_vector \<Rightarrow>
                    (case vectorize_roi ext conformed_volume roi of
                       Inl e \<Rightarrow> Inl e
                     | Inr dense \<Rightarrow>
                         conform_loop ext h fref roi rest
                           (conformed_feature_list @ [pruned_feature_vector],
                            dense_feature_list @ [dense],
                            feature_column_labels
                              @ [generate_heatmap_label ext conformed_volume]))))"

text \<open>
  \<^verbatim>\<open>create_feature_matrix(feature_volumes, roi, PCA)\<close>: the store after the call, and
  either the exception or the value returned, \<open>None\<close> for Python's \<^verbatim>\<open>None\<close>.
\<close>

definition create_feature_matrix ::
  "'a collaborators \<Rightarrow> store \<Rightarrow> (addr, 'a) volume option list \<Rightarrow> roi option \<Rightarrow> bool
     \<Rightarrow> store \<times> (error + ('a list list \<times> frameofreference \<times> 'a list list \<times> string list) option)" where
  "create_feature_matrix ext h feature_volumes roi PCA =
     (if length feature_volumes \<le> 0 then (h, Inr None)
      else
        (case select_frameofreference ext h feature_volumes roi of
           Inl e \<Rightarrow> (h, Inl e)
         | Inr (h', fref) \<Rightarrow>
             (h',
              (case conform_loop ext h' fref roi feature_volumes ([], [], []) of
                 Inl e \<Rightarrow> Inl e
               | Inr (conformed_feature_list, dense_feature_list, feature_column_labels) \<Rightarrow>
                   (case concatenate_axis1 conformed_feature_list of
                      Inl e \<Rightarrow> Inl e
                    | Inr pruned \<Rightarrow>
                        (case concatenate_axis1 dense_feature_list of
                           Inl e \<Rightarrow> Inl e
                         | Inr dense \<Rightarrow>
                             let pruned_feature_array = map (map (nan_to_num ext)) pruned;
                                 dense_feature_array = map (map (nan_to_num ext)) dense
                             in if PCA then
                                  (case SparsePCA_fit_transform ext pruned_feature_array of
                                     Inl e \<Rightarrow> Inl e
                                   | Inr reduced \<Rightarrow>
                                       Inr (Some (reduced, fref, dense_feature_array,
                                                  feature_column_labels)))
                                else Inr (Some (pruned_feature_array, fref,
                                                dense_feature_array, feature_column_labels))))))))"

section \<open>Clustering engine\<close>

text \<open>
  What a caller can pass as \<^verbatim>\<open>feature_matrix\<close>: a numpy array (its rows), or a value of
  another type, on which \<^verbatim>\<open>isinstance(feature_matrix, np.ndarray)\<close> is false.
\<close>

datatype 'a pyobject =
    Ndarray "'a list list"
  | NoneObject
  | ListObject "'a list list"
  | StrObject string

fun is_ndarray :: "'a pyobject \<Rightarrow> bool" where
  "is_ndarray (Ndarray X) = True"
| "is_ndarray _ = False"

text \<open>\<^verbatim>\<open>str.lower()\<close> on ASCII text.\<close>

definition lower_char :: "char \<Rightarrow> char" where
  "lower_char c =
     (case map_of (zip ''ABCDEFGHIJKLMNOPQRSTUVWXYZ'' ''abcdefghijklmnopqrstuvwxyz'') c of
        Some l \<Rightarrow> l
      | None \<Rightarrow> c)"

definition lower :: "string \<Rightarrow> string" where
  "lower s = map lower_char s"

text \<open>The module-level table \<^verbatim>\<open>GLOBAL\<close>.\<close>

definition scipy_hcluster_valid_methods :: "string list" where
  "scipy_hcluster_valid_methods =
     [''ward'', ''single'', ''complete'', ''average'', ''weighted'', ''centroid'', ''median'']"

definition scipy_hcluster_valid_metrics :: "string list" where
  "scipy_hcluster_valid_metrics =
     [''euclidean'', ''cityblock'', ''minkowski'', ''sqeuclidean'', ''seuclidean'', ''cosine'']"

text \<open>
  \<^verbatim>\<open>cluster_kmeans(feature_matrix, nclusters, eps, njobs)\<close>. The parameters \<open>scaler\<close> and
  \<open>km\<close> are sklearn's \<^verbatim>\<open>StandardScaler().fit_transform\<close> and the \<^verbatim>\<open>KMeans\<close> estimator
  (built with \<^verbatim>\<open>n_clusters\<close>, \<^verbatim>\<open>tol\<close> and \<^verbatim>\<open>n_jobs\<close>, fitted, then asked to predict).
  \<open>Inr None\<close> is the return of \<^verbatim>\<open>None\<close>.
\<close>

definition cluster_kmeans ::
  "('a list list \<Rightarrow> error + 'a list list)
     \<Rightarrow> (int \<Rightarrow> real \<Rightarrow> int \<Rightarrow> 'a list list \<Rightarrow> error + int list)
     \<Rightarrow> 'a pyobject \<Rightarrow> int \<Rightarrow> real \<Rightarrow> int \<Rightarrow> error + int list option" where
  "cluster_kmeans scaler km feature_matrix nclusters eps njobs =
     (case feature_matrix of
        Ndarray X \<Rightarrow>
          if nclusters \<le> 1 then Inl ValueError
          else
            (case scaler X of
               Inl e \<Rightarrow> Inl e
             | Inr normalized_feature_matrix \<Rightarrow>
                 (case km nclusters eps njobs normalized_feature_matrix of
                    Inl e \<Rightarrow> Inl e
                  | Inr prediction \<Rightarrow> Inr (Some prediction)))
      | _ \<Rightarrow> Inr None)"

text \<open>
  \<^verbatim>\<open>cluster_hierarchical_sklearn(feature_matrix, nclusters, affinity, linkage)\<close>.

  The source tests \<^verbatim>\<open>linkage is 'maximum'\<close> and \<^verbatim>\<open>linkage is 'ward'\<close>: the operator
  \<^verbatim>\<open>is\<close> compares the identity of two objects, not their values. Identity is not part of
  a string's value, so the test is the parameter \<open>same\<close>: \<open>same s lit\<close> says whether
  the object that \<^verbatim>\<open>str.lower()\<close> returned with value \<open>s\<close> is the object of the literal
  \<open>lit\<close>. The parameter \<open>agg\<close> is sklearn's \<^verbatim>\<open>AgglomerativeClustering\<close> estimator, built
  with \<^verbatim>\<open>n_clusters\<close>, \<^verbatim>\<open>affinity\<close> and \<^verbatim>\<open>linkage\<close>, then asked to fit and predict; it
  returns the prediction and the fitted estimator.
\<close>

definition cluster_hierarchical_sklearn ::
  "(string \<Rightarrow> string \<Rightarrow> bool)
     \<Rightarrow> ('a list list \<Rightarrow> error + 'a list list)
     \<Rightarrow> (int \<Rightarrow> string \<Rightarrow> string \<Rightarrow> 'a list list \<Rightarrow> error + int list \<times> 'g)
     \<Rightarrow> 'a pyobject \<Rightarrow> int \<Rightarrow> string \<Rightarrow> string \<Rightarrow> error + int list \<times> 'g" where
  "cluster_hierarchical_sklearn same scaler agg feature_matrix nclusters affinity linkage =
     (case feature_matrix of
        Ndarray X \<Rightarrow>
          let linkage = lower linkage;
              affinity = lower affinity
          in (case scaler X of
                Inl e \<Rightarrow> Inl e
              | Inr normalized_feature_matrix \<Rightarrow>
                  let valid_linkage = [''ward'', ''complete'', ''maximum'', ''average'']
                  in if linkage \<notin> set valid_linkage then Inl ValueError
                     else
                       let linkage = (if same linkage ''maximum'' then ''complete'' else linkage);
                           valid_affinity = [''l1'', ''l2'', ''manhattan'', ''cosine'', ''euclidean'']
                       in if affinity \<notin> set valid_affinity then Inl ValueError
                          else
                            let affinity =
                                  (if same linkage ''ward'' then ''euclidean'' else affinity)
                            in agg nclusters affinity linkage normalized_feature_matrix)
      | _ \<Rightarrow> Inl TypeError)"

text \<open>
  \<^verbatim>\<open>cluster_hierarchical_scipy(feature_matrix, nclusters, metric, method)\<close>, with scipy's
  \<^verbatim>\<open>sch.linkage\<close> and \<^verbatim>\<open>sch.fcluster(..., criterion='maxclust')\<close> as parameters and the
  same reading of \<^verbatim>\<open>is\<close>.
\<close>

definition cluster_hierarchical_scipy ::
  "(string \<Rightarrow> string \<Rightarrow> bool)
     \<Rightarrow> ('a list list \<Rightarrow> error + 'a list list)
     \<Rightarrow> ('a list list \<Rightarrow> string \<Rightarrow> string \<Rightarrow> error + 'l)
     \<Rightarrow> ('l \<Rightarrow> int \<Rightarrow> error + int list)
     \<Rightarrow> 'a pyobject \<Rightarrow> int \<Rightarrow> string \<Rightarrow> string \<Rightarrow> error + int list \<times> 'l" where
  "cluster_hierarchical_scipy same scaler sch_linkage sch_fcluster
       feature_matrix nclusters metric method =
     (case feature_matrix of
        Ndarray X \<Rightarrow>
          let method = lower method;
              metric = lower metric
          in (case scaler X of
                Inl e \<Rightarrow> Inl e
              | Inr normalized_feature_matrix \<Rightarrow>
                  let valid_method = scipy_hcluster_valid_methods
                  in if method \<notin> set valid_method then Inl ValueError
                     else
                       let method = (if same method ''maximum'' then ''complete'' else method);
                           valid_metric = scipy_hcluster_valid_metrics
                       in if metric \<notin> set valid_metric then Inl ValueError
                          else
                            let metric = (if same method ''ward'' then ''euclidean'' else metric)
                            in (case sch_linkage normalized_feature_matrix method metric of
                                  Inl e \<Rightarrow> Inl e
                                | Inr linkage_matrix \<Rightarrow>
                                    (case sch_fcluster linkage_matrix nclusters of
                                       Inl e \<Rightarrow> Inl e
                                     | Inr prediction \<Rightarrow> Inr (prediction, linkage_matrix))))
      | _ \<Rightarrow> Inl TypeError)"

text \<open>
  Two readings of \<^verbatim>\<open>is\<close>. In CPython, \<^verbatim>\<open>str.lower()\<close> allocates the string it returns
  (unless it is empty), so its result is never the object of a literal of the module:
  \<open>is_cpython\<close>. \<open>is_by_value\<close> is the comparison of values, \<^verbatim>\<open>==\<close>.
\<close>

definition is_cpython :: "string \<Rightarrow> string \<Rightarrow> bool" where
  "is_cpython s lit = (s = [] \<and> lit = [])"

definition is_by_value :: "string \<Rightarrow> string \<Rightarrow> bool" where
  "is_by_value s lit = (s = lit)"


subsection \<open>The documented behaviour of the libraries\<close>






section \<open>Subject work unit\<close>

text \<open>
  The file system the work unit reads and writes: a path leads to a directory, to a
  pickled cluster volume, to the pickled dictionary of the feature matrix and its
  labels, or to some other file. The state of a run is the store of frames of reference
  and the file system.
\<close>

datatype 'a fs_entry =
    Directory
  | ClusterPickle "(frameofreference, int) volume"
  | FeaturePickle "'a list list" "string list"
  | OtherFile

record 'a world =
  heap :: store
  files :: "string \<Rightarrow> 'a fs_entry option"

text \<open>
  A subject: the attributes and accessors of the \<^verbatim>\<open>doi\<close> object that \<^verbatim>\<open>DOICluster\<close>
  uses; \<open>doi_id\<close> is the source's \<^verbatim>\<open>doi.doi\<close>. \<^verbatim>\<open>getImageVolume()\<close> gives the modality of the image with its volume, and
  \<open>None\<close> where the source's test \<^verbatim>\<open>not image_vol\<close> succeeds; likewise \<^verbatim>\<open>getROI()\<close>.
\<close>

record 'a subject =
  doi_id :: string
  p_CLUSTERS :: string
  getFeaturesPath :: string
  getClusterL1PicklePath :: string
  getClusterL1FeaturesPicklePath :: string
  getImageVolume :: "(string \<times> (addr, 'a) volume) option"
  getROI :: "roi option"

text \<open>\<^verbatim>\<open>if not isinstance(doi_list, list): doi_list = [doi_list]\<close>.\<close>

datatype 'a doi_arg = OneDoi "'a subject" | DoiList "'a subject list"

fun as_doi_list :: "'a doi_arg \<Rightarrow> 'a subject list" where
  "as_doi_list (OneDoi d) = [d]"
| "as_doi_list (DoiList ds) = ds"

text \<open>
  The collaborators of the work unit outside \<^verbatim>\<open>cluster.py\<close>: the quantization override,
  the lookup of a feature definition's files, and the unpickling of a volume.
\<close>

record ('a, 'd) feature_io =
  enforceGLCMQuantizationMode :: "'d \<Rightarrow> string \<Rightarrow> 'd"
  findFiles :: "'d \<Rightarrow> string \<Rightarrow> string list"
  fromPickle :: "string \<Rightarrow> error + (addr, 'a) volume"

text \<open>\<^verbatim>\<open>os.path.join(a, b)\<close> of two components.\<close>

definition path_join :: "string \<Rightarrow> string \<Rightarrow> string" where
  "path_join a b =
     (if b \<noteq> [] \<and> hd b = CHR ''/'' then b
      else if a = [] \<or> last a = CHR ''/'' then a @ b
      else a @ ''/'' @ b)"

text \<open>\<^verbatim>\<open>os.path.exists(p)\<close>.\<close>

definition path_exists :: "'a world \<Rightarrow> string \<Rightarrow> bool" where
  "path_exists w p = (files w p \<noteq> None)"

text \<open>
  The directory part of a path, \<^verbatim>\<open>os.path.dirname\<close>: what precedes the last slash. The
  empty path stands for the directory the path is relative to, or for the root; it is a
  directory that exists.
\<close>

definition dirname :: "string \<Rightarrow> string" where
  "dirname p = rev (drop 1 (dropWhile (\<lambda>c. c \<noteq> CHR ''/'') (rev p)))"

definition is_directory :: "'a world \<Rightarrow> string \<Rightarrow> bool" where
  "is_directory w p = (p = [] \<or> files w p = Some Directory)"

text \<open>The prefixes of a path that end before a slash: its ancestors, outermost first.\<close>

fun prefixes_at_slash :: "string \<Rightarrow> string \<Rightarrow> string list" where
  "prefixes_at_slash acc [] = []"
| "prefixes_at_slash acc (c # cs) =
     (if c = CHR ''/'' then acc # prefixes_at_slash (acc @ [c]) cs
      else prefixes_at_slash (acc @ [c]) cs)"

definition ancestors :: "string \<Rightarrow> string list" where
  "ancestors p = filter (\<lambda>q. q \<noteq> []) (prefixes_at_slash [] p)"

text \<open>
  \<^verbatim>\<open>os.makedirs(p, exist_ok=True)\<close>: the missing ancestors and the directory itself are
  created, directories that exist are kept. An ancestor that is a file raises
  NotADirectoryError, the path itself being a file raises FileExistsError, the empty
  path FileNotFoundError.
\<close>

definition makedirs :: "'a world \<Rightarrow> string \<Rightarrow> error + 'a world" where
  "makedirs w p =
     (if p = [] then Inl (OtherException ''FileNotFoundError'')
      else if list_ex (\<lambda>q. \<not> (files w q = None \<or> files w q = Some Directory)) (ancestors p)
      then Inl (OtherException ''NotADirectoryError'')
      else if \<not> (files w p = None \<or> files w p = Some Directory)
      then Inl (OtherException ''FileExistsError'')
      else Inr (w\<lparr>files := fold (\<lambda>q f. f(q \<mapsto> Directory)) (ancestors p @ [p]) (files w)\<rparr>))"

text \<open>
  \<^verbatim>\<open>with open(p, mode='wb') as f: pickle.dump(content, f)\<close>: a path that is a directory
  raises IsADirectoryError, a path whose directory does not exist FileNotFoundError,
  one whose directory is a file NotADirectoryError; otherwise the path leads to the
  serialized content, whatever it led to before.
\<close>

definition open_wb :: "'a world \<Rightarrow> string \<Rightarrow> 'a fs_entry \<Rightarrow> error + 'a world" where
  "open_wb w p content =
     (if p = [] then Inl (OtherException ''FileNotFoundError'')
      else if files w p = Some Directory then Inl (OtherException ''IsADirectoryError'')
      else if is_directory w (dirname p) then Inr (w\<lparr>files := (files w)(p \<mapsto> content)\<rparr>)
      else if files w (dirname p) = None then Inl (OtherException ''FileNotFoundError'')
      else Inl (OtherException ''NotADirectoryError''))"

text \<open>
  Modelled from the spec: \<^verbatim>\<open>toPickle(p)\<close> of the volume classes (module \<^verbatim>\<open>rttypes\<close>),
  "serialize it" to a per-subject path: the write of a pickle to a file, as above.
\<close>

definition toPickle ::
  "'a world \<Rightarrow> (frameofreference, int) volume \<Rightarrow> string \<Rightarrow> error + 'a world" where
  "toPickle w v p = open_wb w p (ClusterPickle v)"

text \<open>
  The loop \<^verbatim>\<open>for feature_def in local_feature_defs\<close>: \<open>Inr None\<close> is the
  \<^verbatim>\<open>return 1\<close> for a feature file that is not found.
\<close>

fun load_features ::
  "('a, 'd) feature_io \<Rightarrow> string \<Rightarrow> string \<Rightarrow> 'd list \<Rightarrow> (addr, 'a) volume list
     \<Rightarrow> error + (addr, 'a) volume list option" where
  "load_features io modality p_doi_features [] feature_volume_list = Inr (Some feature_volume_list)"
| "load_features io modality p_doi_features (feature_def # rest) feature_volume_list =
     (let trimmed_feature_def = enforceGLCMQuantizationMode io feature_def modality;
          matches = findFiles io trimmed_feature_def p_doi_features
      in case matches of
           [] \<Rightarrow> Inr None
         | m0 # _ \<Rightarrow>
             (case fromPickle io m0 of
                Inl e \<Rightarrow> Inl e
              | Inr v \<Rightarrow> load_features io modality p_doi_features rest (feature_volume_list @ [v])))"

text \<open>
  The variables that the loop over the subjects leaves behind for the code after it:
  those of the last subject.
\<close>

record loop_vars =
  roi_var :: roi
  p_doi_clusters :: string
  p_clusters_l1_pickle :: string
  p_features_pickle :: string
  reclustered :: bool

text \<open>
  The loop \<^verbatim>\<open>for doi in doi_list\<close>. \<open>Inr (Inl code)\<close> is a \<^verbatim>\<open>return code\<close> from inside
  the loop; \<open>Inr (Inr (volumes, vars))\<close> is the end of the loop, with no variables if the
  list was empty.
\<close>

fun subject_loop ::
  "('a, 'd) feature_io \<Rightarrow> 'a world \<Rightarrow> bool \<Rightarrow> 'd list \<Rightarrow> 'a subject list
     \<Rightarrow> (addr, 'a) volume list \<times> loop_vars option
     \<Rightarrow> error + (int + (addr, 'a) volume list \<times> loop_vars option)" where
  "subject_loop io w recluster local_feature_defs [] acc = Inr (Inr acc)"
| "subject_loop io w recluster local_feature_defs (d # rest) (feature_volume_list, vars) =
     (let p_doi_features = getFeaturesPath d;
          p_doi_clusters = path_join (p_CLUSTERS d) (doi_id d);
          p_clusters_l1_pickle = getClusterL1PicklePath d
      in if path_exists w p_clusters_l1_pickle \<and> \<not> recluster then Inr (Inl 10)
         else
           (case getImageVolume d of
              None \<Rightarrow> Inr (Inl 1)
            | Some (modality, image_vol) \<Rightarrow>
                (case getROI d of
                   None \<Rightarrow> Inr (Inl 1)
                 | Some roi \<Rightarrow>
                     (case load_features io modality p_doi_features local_feature_defs
                             (feature_volume_list @ [image_vol]) of
                        Inl e \<Rightarrow> Inl e
                      | Inr None \<Rightarrow> Inr (Inl 1)
                      | Inr (Some feature_volume_list') \<Rightarrow>
                          subject_loop io w recluster local_feature_defs rest
                            (feature_volume_list',
                             Some \<lparr>roi_var = roi,
                                   p_doi_clusters = p_doi_clusters,
                                   p_clusters_l1_pickle = p_clusters_l1_pickle,
                                   p_features_pickle = getClusterL1FeaturesPicklePath d,
                                   reclustered = path_exists w p_clusters_l1_pickle\<rparr>)))))"

text \<open>
  The code of \<^verbatim>\<open>DOICluster\<close> after the loop: assemble, cluster with k-means
  (\<^verbatim>\<open>njobs=1\<close>, the default \<^verbatim>\<open>eps\<close>), expand the one-dimensional array of labels with
  the default fill value \<open>-1\<close>, create the directory, write both pickles, and return 11
  after a recluster, 0 otherwise. An exception leaves the world as the steps before it
  made it. A result of \<^verbatim>\<open>None\<close> from the assembler cannot be unpacked (TypeError), and
  one from k-means has no \<^verbatim>\<open>shape\<close> (AttributeError).
\<close>

definition cluster_and_persist ::
  "'a collaborators \<Rightarrow> ('a list list \<Rightarrow> error + 'a list list)
     \<Rightarrow> (int \<Rightarrow> real \<Rightarrow> int \<Rightarrow> 'a list list \<Rightarrow> error + int list)
     \<Rightarrow> 'a world \<Rightarrow> (addr, 'a) volume list \<Rightarrow> loop_vars \<Rightarrow> int \<Rightarrow> 'a world \<times> (error + int)" where
  "cluster_and_persist ext scaler km w feature_volume_list vars nclusters =
     (case create_feature_matrix ext (heap w) (map Some feature_volume_list)
             (Some (roi_var vars)) False of
        (h', Inl e) \<Rightarrow> (w\<lparr>heap := h'\<rparr>, Inl e)
      | (h', Inr None) \<Rightarrow> (w\<lparr>heap := h'\<rparr>, Inl TypeError)
      | (h', Inr (Some (pruned_feature_array, fref, full_feature_array, feat_column_labels))) \<Rightarrow>
          let w1 = w\<lparr>heap := h'\<rparr>
          in (case cluster_kmeans scaler km (Ndarray pruned_feature_array) nclusters (1 / 10000) 1 of
                Inl e \<Rightarrow> (w1, Inl e)
              | Inr None \<Rightarrow> (w1, Inl AttributeError)
              | Inr (Some pruned_cluster_vector) \<Rightarrow>
                  (case expand_pruned_vector (Vector pruned_cluster_vector)
                          (Some (roi_var vars)) fref (- 1) of
                     Inl e \<Rightarrow> (w1, Inl e)
                   | Inr dense_cluster_volume \<Rightarrow>
                       (case makedirs w1 (p_doi_clusters vars) of
                          Inl e \<Rightarrow> (w1, Inl e)
                        | Inr w2 \<Rightarrow>
                            (case toPickle w2 dense_cluster_volume (p_clusters_l1_pickle vars) of
                               Inl e \<Rightarrow> (w2, Inl e)
                             | Inr w3 \<Rightarrow>
                                 (case open_wb w3 (p_features_pickle vars)
                                         (FeaturePickle full_feature_array feat_column_labels) of
                                    Inl e \<Rightarrow> (w3, Inl e)
                                  | Inr w4 \<Rightarrow>
                                      (w4, Inr (if reclustered vars then 11 else 0))))))))"

text \<open>
  \<^verbatim>\<open>DOICluster(doi_list, local_feature_defs, nclusters, recluster)\<close>: the world after the
  call, and the exception or the status code. With an empty list the name \<^verbatim>\<open>roi\<close> is
  read before any assignment.
\<close>

definition DOICluster ::
  "'a collaborators \<Rightarrow> ('a list list \<Rightarrow> error + 'a list list)
     \<Rightarrow> (int \<Rightarrow> real \<Rightarrow> int \<Rightarrow> 'a list list \<Rightarrow> error + int list)
     \<Rightarrow> ('a, 'd) feature_io
     \<Rightarrow> 'a world \<Rightarrow> 'a doi_arg \<Rightarrow> 'd list \<Rightarrow> int \<Rightarrow> bool \<Rightarrow> 'a world \<times> (error + int)" where
  "DOICluster ext scaler km io w doi_list local_feature_defs nclusters recluster =
     (case subject_loop io w recluster local_feature_defs (as_doi_list doi_list) ([], None) of
        Inl e \<Rightarrow> (w, Inl e)
      | Inr (Inl code) \<Rightarrow> (w, Inr code)
      | Inr (Inr (feature_volume_list, None)) \<Rightarrow> (w, Inl UnboundLocalError)
      | Inr (Inr (feature_volume_list, Some vars)) \<Rightarrow>
          cluster_and_persist ext scaler km w feature_volume_list vars nclusters)"

section \<open>Batch orchestrator\<close>

text \<open>
  What a caller can pass as \<^verbatim>\<open>args_tuple\<close>: a tuple of any length, of values of any
  type \<open>'v\<close>, or an object that cannot be sliced.
\<close>

datatype 'v args = Tuple "'v list" | NotSubscriptable

text \<open>
  \<^verbatim>\<open>worker_DOICluster(args_tuple)\<close>: the world after the call, and the exception that
  leaves the worker or the tuple it returns.

  The parameter \<open>unit\<close> is \<^verbatim>\<open>DOICluster\<close> as called with three positional arguments and
  \<^verbatim>\<open>recluster=True\<close>, so that the worker is defined for every status code and every
  exception of a work unit; \<open>clock_start\<close> and \<open>clock_end\<close> are the two readings of
  \<^verbatim>\<open>time.time()\<close>, and \<open>strftime\<close> is \<^verbatim>\<open>time.strftime('%H:%M:%S', time.gmtime(t))\<close>.

  Inside the \<^verbatim>\<open>try\<close>: slicing an object that cannot be sliced raises TypeError, and
  unpacking \<^verbatim>\<open>args_tuple[:3]\<close> of fewer than three values raises ValueError, both before
  \<^verbatim>\<open>doi\<close> is bound; with more than three values the call passes a fourth positional
  argument besides the keyword \<^verbatim>\<open>recluster\<close> and raises TypeError. \<^verbatim>\<open>except Exception\<close>
  then sets code 2. After it, the \<^verbatim>\<open>return\<close> reads \<^verbatim>\<open>doi\<close>: where it was never bound
  this raises UnboundLocalError.
\<close>

definition worker_DOICluster ::
  "('w \<Rightarrow> 'v \<Rightarrow> 'v \<Rightarrow> 'v \<Rightarrow> bool \<Rightarrow> 'w \<times> (error + int)) \<Rightarrow> (real \<Rightarrow> string) \<Rightarrow> real \<Rightarrow> real
     \<Rightarrow> 'w \<Rightarrow> 'v args \<Rightarrow> 'w \<times> (error + int \<times> string \<times> string \<times> 'v)" where
  "worker_DOICluster unit strftime clock_start clock_end w args_tuple =
     (case args_tuple of
        NotSubscriptable \<Rightarrow> (w, Inl UnboundLocalError)
      | Tuple values \<Rightarrow>
          (case take 3 values of
             [doi, local_feature_def, nclusters] \<Rightarrow>
               (case (if length values = 3 then unit w doi local_feature_def nclusters True
                      else (w, Inl TypeError)) of
                  (w', outcome) \<Rightarrow>
                    let job_time_string = strftime (clock_end - clock_start)
                    in (case outcome of
                          Inl e \<Rightarrow>
                            if is_exception e
                            then (w', Inr (2, ''exception'', job_time_string, doi))
                            else (w', Inl e)
                        | Inr result_code \<Rightarrow>
                            if result_code = 0
                            then (w', Inr (result_code, ''success'', job_time_string, doi))
                            else if result_code = 1
                            then (w', Inr (result_code, ''missing data'', job_time_string, doi))
                            else if result_code = 10
                            then (w', Inr (result_code, ''skipped'', job_time_string, doi))
                            else if result_code = 11
                            then (w', Inr (result_code, ''recalc'', job_time_string, doi))
                            else (w', Inr (- 1, ''unknown'', job_time_string, doi))))
           | _ \<Rightarrow> (w, Inl UnboundLocalError)))"

section \<open>Notions used in the statements\<close>

text \<open>An index triple lies inside an array; the entry of the array there.\<close>

definition in_bounds :: "'a ndarray \<Rightarrow> nat \<times> nat \<times> nat \<Rightarrow> bool" where
  "in_bounds a i =
     (case i of (d, r, c) \<Rightarrow> case shape a of (nz, ny, nx) \<Rightarrow> d < nz \<and> r < ny \<and> c < nx)"

definition entry :: "'a ndarray \<Rightarrow> nat \<times> nat \<times> nat \<Rightarrow> 'a" where
  "entry a i =
     (case i of (d, r, c) \<Rightarrow> case shape a of (nz, ny, nx) \<Rightarrow> flat a ! ((d * ny + r) * nx + c))"

text \<open>How an entry of a pruned vector comes out of \<^verbatim>\<open>pruned_vector[pruned_idx]\<close>.\<close>

fun item_of :: "'a pyvector \<Rightarrow> 'a \<Rightarrow> 'a item" where
  "item_of (Vector xs) x = Scalar x"
| "item_of (Column xs) x = Row1 x"

text \<open>
  An entry of the list of feature volumes that the assembler drops: \<^verbatim>\<open>None\<close>, or a
  volume whose resampled array has not the shape of the common frame of reference.
\<close>

definition rejected ::
  "'a collaborators \<Rightarrow> store \<Rightarrow> frameofreference \<Rightarrow> (addr, 'a) volume option \<Rightarrow> bool" where
  "rejected ext h fref x =
     (case x of
        None \<Rightarrow> True
      | Some vol \<Rightarrow>
          (case conformTo ext (load h vol) fref of
             Inl e \<Rightarrow> False
           | Inr conformed_volume \<Rightarrow>
               shape (array conformed_volume) \<noteq> (case size_xyz fref of (x, y, z) \<Rightarrow> (z, y, x))))"

section \<open>Example data\<close>

definition example_for :: frameofreference where
  "example_for = \<lparr>size_xyz = (2, 1, 1), spacing = (1, 1, 1)\<rparr>"

definition example_volume :: "(frameofreference, int) volume" where
  "example_volume =
     \<lparr>frameofreference = example_for, array = \<lparr>shape = (1, 1, 2), flat = [10, 20]\<rparr>\<rparr>"

text \<open>A mask that keeps the first of two voxels, on any frame of reference.\<close>

definition example_roi :: roi where
  "example_roi =
     \<lparr>roi_frameofreference = example_for,
      makeDenseMask = (\<lambda>f. \<lparr>frameofreference = f, array = \<lparr>shape = (1, 1, 2), flat = [1, 0]\<rparr>\<rparr>)\<rparr>"

text \<open>
  A dense mask wider than the example volume, one narrower; the first belongs to a
  region of interest whose own frame of reference is three voxels wide.
\<close>

definition wide_for :: frameofreference where
  "wide_for = \<lparr>size_xyz = (3, 1, 1), spacing = (1, 1, 1)\<rparr>"

definition wide_roi :: roi where
  "wide_roi =
     \<lparr>roi_frameofreference = wide_for,
      makeDenseMask = (\<lambda>f. \<lparr>frameofreference = wide_for,
                              array = \<lparr>shape = (1, 1, 3), flat = [1, 1, 0]\<rparr>\<rparr>)\<rparr>"

definition narrow_roi :: roi where
  "narrow_roi =
     \<lparr>roi_frameofreference = example_for,
      makeDenseMask = (\<lambda>f. \<lparr>frameofreference = f\<lparr>size_xyz := (1, 1, 1)\<rparr>,
                              array = \<lparr>shape = (1, 1, 1), flat = [1]\<rparr>\<rparr>)\<rparr>"

text \<open>
  Collaborators for the examples: resampling that keeps the array, flattening that
  ignores the mask, one label, no NaN, no reduction, products that need no rounding
  (the spacings of the examples are small integers); a scaler and estimators that
  return at once.
\<close>

definition example_ext :: "int collaborators" where
  "example_ext =
     \<lparr>conformTo = (\<lambda>v f. Inr (v\<lparr>frameofreference := f\<rparr>)),
      vectorize_roi = (\<lambda>v r. Inr (flat (array v))),
      generate_heatmap_label = (\<lambda>v. ''feature''),
      nan_to_num = (\<lambda>x. x),
      SparsePCA_fit_transform = (\<lambda>X. Inr X),
      float_round = (\<lambda>x. x)\<rparr>"

definition example_scaler :: "int list list \<Rightarrow> error + int list list" where
  "example_scaler X = Inr X"

definition example_km :: "int \<Rightarrow> real \<Rightarrow> int \<Rightarrow> int list list \<Rightarrow> error + int list" where
  "example_km nclusters eps njobs X = Inr (map (\<lambda>row. 0) X)"

definition example_agg ::
  "int \<Rightarrow> string \<Rightarrow> string \<Rightarrow> int list list \<Rightarrow> error + int list \<times> string \<times> string" where
  "example_agg nclusters affinity linkage X = Inr (map (\<lambda>row. 0) X, affinity, linkage)"

definition example_sch_linkage ::
  "int list list \<Rightarrow> string \<Rightarrow> string \<Rightarrow> error + string \<times> string" where
  "example_sch_linkage X method metric = Inr (method, metric)"

definition example_sch_fcluster :: "string \<times> string \<Rightarrow> int \<Rightarrow> error + int list" where
  "example_sch_fcluster linkage_matrix nclusters = Inr [1]"

text \<open>
  A store in which every frame of reference is two voxels wide with spacing (2, 2, 2),
  and an input volume whose frame of reference is the object at address 0.
\<close>

definition example_store :: store where
  "example_store = (\<lambda>a. \<lparr>size_xyz = (2, 1, 1), spacing = (2, 2, 2)\<rparr>)"

definition example_input :: "(addr, int) volume" where
  "example_input = \<lparr>frameofreference = 0, array = \<lparr>shape = (1, 1, 2), flat = [10, 20]\<rparr>\<rparr>"



text \<open>
  A store with a frame of reference of spacing (1, 3, 3) at address 0 and one of
  spacing (2, 1, 1) at address 1, and a volume on each: the second has the smaller
  voxel volume, 2 against 9, and the larger first component.
\<close>

definition two_store :: store where
  "two_store =
     (\<lambda>a. if a = 1 then \<lparr>size_xyz = (4, 4, 4), spacing = (2, 1, 1)\<rparr>
          else \<lparr>size_xyz = (2, 1, 1), spacing = (1, 3, 3)\<rparr>)"

definition coarse_input :: "(addr, int) volume" where
  "coarse_input = \<lparr>frameofreference = 0, array = \<lparr>shape = (1, 1, 2), flat = [10, 20]\<rparr>\<rparr>"

definition fine_input :: "(addr, int) volume" where
  "fine_input = \<lparr>frameofreference = 1, array = \<lparr>shape = (4, 4, 4), flat = replicate 64 0\<rparr>\<rparr>"

text \<open>
  A store in which the same two volumes have frames of reference of the same spacing
  (1, 1, 1) and of different sizes.
\<close>

definition tie_store :: store where
  "tie_store =
     (\<lambda>a. if a = 1 then \<lparr>size_xyz = (4, 4, 4), spacing = (1, 1, 1)\<rparr>
          else \<lparr>size_xyz = (2, 1, 1), spacing = (1, 1, 1)\<rparr>)"

text \<open>A subject with one feature file per definition, and a world with no file.\<close>

definition example_io :: "(int, string) feature_io" where
  "example_io =
     \<lparr>enforceGLCMQuantizationMode = (\<lambda>feature_def modality. feature_def),
      findFiles = (\<lambda>feature_def p. [p @ ''/'' @ feature_def]),
      fromPickle = (\<lambda>p. Inr example_input)\<rparr>"

definition example_subject :: "int subject" where
  "example_subject =
     \<lparr>doi_id = ''doi01'',
      p_CLUSTERS = ''clusters'',
      getFeaturesPath = ''features/doi01'',
      getClusterL1PicklePath = ''clusters/doi01/l1.pickle'',
      getClusterL1FeaturesPicklePath = ''clusters/doi01/l1_features.pickle'',
      getImageVolume = Some (''CT'', example_input),
      getROI = Some example_roi\<rparr>"

definition example_world :: "int world" where
  "example_world = \<lparr>heap = example_store, files = (\<lambda>p. None)\<rparr>"

text \<open>The cluster volume and the world after the first run on the example subject.\<close>

definition example_cluster_volume :: "(frameofreference, int) volume" where
  "example_cluster_volume =
     \<lparr>frameofreference = example_for, array = \<lparr>shape = (1, 1, 2), flat = [0, - 1]\<rparr>\<rparr>"


text \<open>
  A subject whose feature pickle path is the directory of its clusters, and one whose
  cluster pickle lies in a directory that nothing creates.
\<close>

definition clashing_subject :: "int subject" where
  "clashing_subject = example_subject\<lparr>getClusterL1FeaturesPicklePath := ''clusters/doi01''\<rparr>"

definition stray_subject :: "int subject" where
  "stray_subject = example_subject\<lparr>getClusterL1PicklePath := ''elsewhere/l1.pickle''\<rparr>"

section \<open>Mask projector: the round trip\<close>

lemma getitem3_in_bounds:
  "in_bounds a (d, r, c) \<Longrightarrow> getitem3 a d r c = Inr (entry a (d, r, c))"
  by (simp add: in_bounds_def getitem3_def entry_def split: prod.splits)

lemma getitem3_out_of_bounds:
  "\<not> in_bounds a (d, r, c) \<Longrightarrow> getitem3 a d r c = Inl IndexError"
  by (auto simp add: in_bounds_def getitem3_def split: prod.splits)

text \<open>Inside the bounds, pruning keeps the entries at the mask's ones, in loop order.\<close>

lemma prune_loop_in_bounds:
  "\<forall>i \<in> set idxs. in_bounds m i \<and> in_bounds a i \<Longrightarrow>
   prune_loop m a idxs acc = Inr (acc @ map (entry a) (filter (\<lambda>i. entry m i = 1) idxs))"
proof (induction idxs arbitrary: acc)
  case Nil
  then show ?case by simp
next
  case (Cons i idxs)
  obtain d r c where i: "i = (d, r, c)" by (cases i) auto
  from Cons.prems have b: "in_bounds m (d, r, c)" "in_bounds a (d, r, c)"
    and rest: "\<forall>i \<in> set idxs. in_bounds m i \<and> in_bounds a i"
    by (simp_all add: i)
  show ?case
    by (simp add: i getitem3_in_bounds [OF b(1)] getitem3_in_bounds [OF b(2)] Cons.IH [OF rest])
qed

lemma vector_getitem_entries:
  "k < length (entries pv) \<Longrightarrow> vector_getitem pv k = Inr (item_of pv (entries pv ! k))"
  by (cases pv) simp_all

text \<open>
  Expansion of a vector that holds, from \<open>pruned_idx\<close> on, one value per one of the mask:
  each index gets the item of its value, or the fill value as a scalar.
\<close>

lemma expand_loop_in_bounds:
  "\<forall>i \<in> set idxs. in_bounds m i \<Longrightarrow>
   entries pv = pre @ map f (filter (\<lambda>i. entry m i = 1) idxs) \<Longrightarrow>
   expand_loop m pv fill idxs acc (length pre)
     = Inr (acc @ map (\<lambda>i. if entry m i = 1 then item_of pv (f i) else Scalar fill) idxs)"
proof (induction idxs arbitrary: acc pre)
  case Nil
  then show ?case by simp
next
  case (Cons i idxs)
  obtain d r c where i: "i = (d, r, c)" by (cases i) auto
  from Cons.prems have b: "in_bounds m (d, r, c)"
    and rest: "\<forall>i \<in> set idxs. in_bounds m i"
    by (simp_all add: i)
  show ?case
  proof (cases "entry m i = 1")
    case True
    with Cons.prems(2)
    have pv: "entries pv = (pre @ [f i]) @ map f (filter (\<lambda>i. entry m i = 1) idxs)"
      by simp
    have len: "length pre < length (entries pv)" and nth: "entries pv ! length pre = f i"
      using pv by (simp_all add: nth_append)
    have get: "vector_getitem pv (length pre) = Inr (item_of pv (f i))"
      using vector_getitem_entries [OF len] nth by simp
    from Cons.IH [OF rest pv, of "acc @ [item_of pv (f i)]"] True get show ?thesis
      by (simp add: i getitem3_in_bounds [OF b])
  next
    case False
    with Cons.prems(2)
    have pv: "entries pv = pre @ map f (filter (\<lambda>i. entry m i = 1) idxs)"
      by simp
    from Cons.IH [OF rest pv, of "acc @ [Scalar fill]"] False show ?thesis
      by (simp add: i getitem3_in_bounds [OF b])
  qed
qed

text \<open>What \<^verbatim>\<open>np.array\<close> makes of a list of items.\<close>

lemma scalars_None: "scalars items = None \<longleftrightarrow> (\<exists>x. Row1 x \<in> set items)"
  by (induction items rule: scalars.induct) auto

lemma rows_None: "rows items = None \<longleftrightarrow> (\<exists>x. Scalar x \<in> set items)"
  by (induction items rule: rows.induct) auto

lemma np_array_mixed:
  "Row1 x \<in> set items \<Longrightarrow> Scalar y \<in> set items \<Longrightarrow> np_array items = Inl ValueError"
proof -
  assume "Row1 x \<in> set items" "Scalar y \<in> set items"
  then have "scalars items = None" "rows items = None"
    by (auto simp add: scalars_None rows_None)
  then show ?thesis by (simp add: np_array_def)
qed

lemma scalars_map_Scalar: "scalars (map (\<lambda>i. Scalar (g i)) idxs) = Some (map g idxs)"
  by (induction idxs) simp_all

lemma np_array_scalars: "np_array (map (\<lambda>i. Scalar (g i)) idxs) = Inr (Vector (map g idxs))"
  by (simp add: np_array_def scalars_map_Scalar)

lemma length_voxel_indices:
  "length (voxel_indices (sx, sy, sz)) = sz * sy * sx"
  by (simp add: voxel_indices_def)

lemma set_voxel_indices:
  "set (voxel_indices (sx, sy, sz)) = {(d, r, c). d < sz \<and> r < sy \<and> c < sx}"
  by (auto simp add: voxel_indices_def)

lemma flat_index_bound:
  assumes "d < sz" "r < sy" "c < (sx::nat)"
  shows "(d * sy + r) * sx + c < sz * sy * sx"
proof -
  have "d * sy + r < sz * sy"
  proof -
    have "d * sy + r < d * sy + sy" using assms by simp
    also have "\<dots> = Suc d * sy" by simp
    also have "\<dots> \<le> sz * sy" using assms by (intro mult_le_mono1) simp
    finally show ?thesis .
  qed
  then have "Suc (d * sy + r) * sx \<le> (sz * sy) * sx"
    by (intro mult_le_mono1) simp
  moreover have "(d * sy + r) * sx + c < Suc (d * sy + r) * sx"
    using assms by simp
  ultimately show ?thesis by linarith
qed

text \<open>The loops reach the index \<open>(d, r, c)\<close> at the step that is its position in C order.\<close>

lemma nth_voxel_indices:
  assumes "d < sz" "r < sy" "c < sx"
  shows "voxel_indices (sx, sy, sz) ! ((d * sy + r) * sx + c) = (d, r, c)"
proof -
  let ?k = "(d * sy + r) * sx + c"
  have k: "?k < sz * sy * sx" by (rule flat_index_bound [OF assms])
  have k2: "?k = d * (sy * sx) + (r * sx + c)" by (simp add: algebra_simps)
  have rc: "r * sx + c < sy * sx"
    using flat_index_bound [of 0 1 r sy c sx] assms by simp
  have pos: "sy * sx \<noteq> 0" using assms by auto
  have dv: "?k div (sy * sx) = d"
    unfolding k2 using rc div_mult_self3 [OF pos, of d "r * sx + c"] by simp
  have md: "?k mod (sy * sx) = r * sx + c"
    unfolding k2 using rc mod_mult_self3 [of d "sy * sx" "r * sx + c"] by simp
  have "voxel_indices (sx, sy, sz) ! ?k
        = ([0..<sz] ! (?k div (sy * sx)), List.product [0..<sy] [0..<sx] ! (?k mod (sy * sx)))"
    unfolding voxel_indices_def using k
    by (simp add: product_nth mult.assoc)
  also have "\<dots> = (d, List.product [0..<sy] [0..<sx] ! (r * sx + c))"
    using assms by (simp only: dv md) simp
  also have "List.product [0..<sy] [0..<sx] ! (r * sx + c) = (r, c)"
    using assms rc by (simp add: product_nth)
  finally show ?thesis .
qed


text \<open>
  The law on a one-dimensional pruned vector, which is what the docstring of
  \<^verbatim>\<open>expand_pruned_vector\<close> asks for: for a volume whose array has the shape of its frame
  of reference, and a mask whose dense mask on that frame has the same shape, the
  entries that pruning collects, expanded as a vector, give the volume's value at every
  voxel where the dense mask is 1 and the fill value at every other voxel.
\<close>

lemma roundtrip_of_vector:
  assumes sz: "size_xyz (frameofreference v) = (sx, sy, sz)"
    and va: "shape (array v) = (sz, sy, sx)"
    and ma: "shape (array (makeDenseMask m (frameofreference v))) = (sz, sy, sx)"
  shows "\<exists>pv w. create_pruned_vector v (Some m) = Inr pv
           \<and> expand_pruned_vector (Vector pv) (Some m) (frameofreference v) fill = Inr w
           \<and> frameofreference w = frameofreference v
           \<and> shape (array w) = shape (array v)
           \<and> (\<forall>d < sz. \<forall>r < sy. \<forall>c < sx.
                 getitem3 (array w) d r c =
                   (if getitem3 (array (makeDenseMask m (frameofreference v))) d r c = Inr 1
                    then getitem3 (array v) d r c else Inr fill))"
proof -
  let ?dm = "array (makeDenseMask m (frameofreference v))"
  let ?idxs = "voxel_indices (sx, sy, sz)"
  let ?pv = "map (entry (array v)) (filter (\<lambda>i. entry ?dm i = 1) ?idxs)"
  let ?ex = "map (\<lambda>i. if entry ?dm i = 1 then entry (array v) i else fill) ?idxs"
  let ?w = "\<lparr>frameofreference = frameofreference v,
             array = \<lparr>shape = (sz, sy, sx), flat = ?ex\<rparr>\<rparr>"
  have bounds: "\<forall>i \<in> set ?idxs. in_bounds ?dm i \<and> in_bounds (array v) i"
    by (auto simp add: set_voxel_indices in_bounds_def va ma)
  have prune: "create_pruned_vector v (Some m) = Inr ?pv"
    using prune_loop_in_bounds [OF bounds, of "[]"]
    by (simp add: create_pruned_vector_def sz)
  have bounds': "\<forall>i \<in> set ?idxs. in_bounds ?dm i" using bounds by blast
  have "expand_loop ?dm (Vector ?pv) fill ?idxs [] (length ([]::'a list))
          = Inr ([] @ map (\<lambda>i. if entry ?dm i = 1
                                then item_of (Vector ?pv) (entry (array v) i)
                                else Scalar fill) ?idxs)"
    by (rule expand_loop_in_bounds [OF bounds']) simp
  moreover have "map (\<lambda>i. if entry ?dm i = 1
                                then item_of (Vector ?pv) (entry (array v) i)
                                else Scalar fill) ?idxs
      = map (\<lambda>i. Scalar (if entry ?dm i = 1 then entry (array v) i else fill)) ?idxs"
    by simp
  ultimately have loop: "expand_loop ?dm (Vector ?pv) fill ?idxs [] 0
      = Inr (map (\<lambda>i. Scalar (if entry ?dm i = 1 then entry (array v) i else fill)) ?idxs)"
    by simp
  have expand: "expand_pruned_vector (Vector ?pv) (Some m) (frameofreference v) fill = Inr ?w"
    by (simp add: expand_pruned_vector_def sz loop np_array_scalars fromArray_def
        length_voxel_indices)
  have vox: "getitem3 (array ?w) d r c =
       (if getitem3 ?dm d r c = Inr 1 then getitem3 (array v) d r c else Inr fill)"
    if "d < sz" "r < sy" "c < sx" for d r c
  proof -
    have k: "(d * sy + r) * sx + c < length ?idxs"
      using flat_index_bound [OF that] by (simp add: length_voxel_indices)
    have b1: "in_bounds ?dm (d, r, c)" and b2: "in_bounds (array v) (d, r, c)"
      using that by (simp_all add: in_bounds_def va ma)
    have "getitem3 (array ?w) d r c = Inr (?ex ! ((d * sy + r) * sx + c))"
      using that by (simp add: getitem3_def)
    also have "?ex ! ((d * sy + r) * sx + c)
        = (if entry ?dm (d, r, c) = 1 then entry (array v) (d, r, c) else fill)"
      using k by (simp add: nth_voxel_indices [OF that])
    finally show ?thesis
      by (simp add: getitem3_in_bounds [OF b1] getitem3_in_bounds [OF b2])
  qed
  show ?thesis
    using prune expand vox by (intro exI [of _ ?pv] exI [of _ ?w]) (simp add: va)
qed

text \<open>
  On the (N, 1) array that \<^verbatim>\<open>create_pruned_vector\<close> returns, expansion fails as soon as
  the dense mask has a one and another value inside the frame: the list handed to
  \<^verbatim>\<open>np.array\<close> then mixes a one-element array with the scalar fill value.
\<close>

lemma roundtrip_of_column_raises:
  assumes sz: "size_xyz (frameofreference v) = (sx, sy, sz)"
    and va: "shape (array v) = (sz, sy, sx)"
    and ma: "shape (array (makeDenseMask m (frameofreference v))) = (sz, sy, sx)"
    and one: "d < sz" "r < sy" "c < sx"
      "getitem3 (array (makeDenseMask m (frameofreference v))) d r c = Inr 1"
    and other: "d' < sz" "r' < sy" "c' < sx"
      "getitem3 (array (makeDenseMask m (frameofreference v))) d' r' c' \<noteq> Inr 1"
  shows "\<exists>pv. create_pruned_vector v (Some m) = Inr pv
           \<and> expand_pruned_vector (Column pv) (Some m) (frameofreference v) fill = Inl ValueError"
proof -
  let ?dm = "array (makeDenseMask m (frameofreference v))"
  let ?idxs = "voxel_indices (sx, sy, sz)"
  let ?pv = "map (entry (array v)) (filter (\<lambda>i. entry ?dm i = 1) ?idxs)"
  let ?items = "map (\<lambda>i. if entry ?dm i = 1 then item_of (Column ?pv) (entry (array v) i)
                            else Scalar fill) ?idxs"
  have bounds: "\<forall>i \<in> set ?idxs. in_bounds ?dm i \<and> in_bounds (array v) i"
    by (auto simp add: set_voxel_indices in_bounds_def va ma)
  have prune: "create_pruned_vector v (Some m) = Inr ?pv"
    using prune_loop_in_bounds [OF bounds, of "[]"]
    by (simp add: create_pruned_vector_def sz)
  have bounds': "\<forall>i \<in> set ?idxs. in_bounds ?dm i" using bounds by blast
  have "expand_loop ?dm (Column ?pv) fill ?idxs [] (length ([]::'a list)) = Inr ([] @ ?items)"
    by (rule expand_loop_in_bounds [OF bounds']) simp
  then have loop: "expand_loop ?dm (Column ?pv) fill ?idxs [] 0 = Inr ?items" by simp
  have i1: "(d, r, c) \<in> set ?idxs" and i2: "(d', r', c') \<in> set ?idxs"
    using one other by (simp_all add: set_voxel_indices)
  have b1: "in_bounds ?dm (d, r, c)" and b2: "in_bounds ?dm (d', r', c')"
    using bounds i1 i2 by blast+
  have e1: "entry ?dm (d, r, c) = 1" using one(4) by (simp add: getitem3_in_bounds [OF b1])
  have e2: "entry ?dm (d', r', c') \<noteq> 1" using other(4) by (simp add: getitem3_in_bounds [OF b2])
  have "Row1 (entry (array v) (d, r, c)) \<in> set ?items"
    using i1 e1 by (force simp add: image_iff)
  moreover have "Scalar fill \<in> set ?items"
    using i2 e2 by (force simp add: image_iff)
  ultimately have "np_array ?items = Inl ValueError" by (rule np_array_mixed)
  then have "expand_pruned_vector (Column ?pv) (Some m) (frameofreference v) fill = Inl ValueError"
    by (simp add: expand_pruned_vector_def sz loop)
  with prune show ?thesis by blast
qed

text \<open>
  C1, at the volume [10, 20] of size (2, 1, 1), the mask that keeps its first voxel and
  the fill value -1: pruning returns the (1, 1) array of the entry 10, and expanding
  that array on the volume's frame of reference raises ValueError where the claim has a
  volume with the values 10 and -1.
\<close>

theorem roundtrip_of_pruned_column_raises:
  "create_pruned_vector example_volume (Some example_roi) = Inr [10]
   \<and> expand_pruned_vector (Column [10]) (Some example_roi) (frameofreference example_volume) (- 1)
       = Inl ValueError"
  by (simp add: example_roi_def example_volume_def example_for_def create_pruned_vector_def
      expand_pruned_vector_def voxel_indices_def getitem3_def np_array_def upt_rec)

text \<open>
  Without a mask, pruning flattens the volume and expanding reshapes it back: the
  round trip gives the volume itself, whatever the shape of the pruned vector.
\<close>

lemma roundtrip_without_roi:
  assumes sz: "size_xyz (frameofreference v) = (sx, sy, sz)"
    and va: "shape (array v) = (sz, sy, sx)"
    and wf: "wf_ndarray (array v)"
  shows "create_pruned_vector v None = Inr (flat (array v))"
    and "expand_pruned_vector (Column (flat (array v))) None (frameofreference v) fill = Inr v"
    and "expand_pruned_vector (Vector (flat (array v))) None (frameofreference v) fill = Inr v"
  using assms
  by (simp_all add: create_pruned_vector_def vectorize_def expand_pruned_vector_def
      fromArray_def wf_ndarray_def)

section \<open>Mask projector: sizes that disagree\<close>

text \<open>The only exception of the pruning loops is the IndexError of an array read.\<close>

lemma prune_loop_error:
  "prune_loop m a idxs acc = Inl e \<Longrightarrow> e = IndexError"
proof (induction idxs arbitrary: acc)
  case Nil
  then show ?case by simp
next
  case (Cons i idxs)
  obtain d r c where i: "i = (d, r, c)" by (cases i) auto
  show ?case
  proof (cases "in_bounds m (d, r, c)")
    case False
    with Cons.prems show ?thesis by (simp add: i getitem3_out_of_bounds)
  next
    case mb: True
    show ?thesis
    proof (cases "in_bounds a (d, r, c)")
      case True
      with Cons.prems mb Cons.IH show ?thesis
        by (auto simp add: i getitem3_in_bounds split: if_splits)
    next
      case False
      with Cons.prems mb Cons.IH show ?thesis
        by (auto simp add: i getitem3_in_bounds getitem3_out_of_bounds split: if_splits)
    qed
  qed
qed

lemma prune_loop_out_of_bounds:
  "\<exists>i \<in> set idxs. \<not> in_bounds m i \<Longrightarrow> \<exists>e. prune_loop m a idxs acc = Inl e"
proof (induction idxs arbitrary: acc)
  case Nil
  then show ?case by simp
next
  case (Cons i idxs)
  obtain d r c where i: "i = (d, r, c)" by (cases i) auto
  show ?case
  proof (cases "in_bounds m (d, r, c)")
    case False
    then show ?thesis by (simp add: i getitem3_out_of_bounds)
  next
    case True
    with Cons.prems have "\<exists>i \<in> set idxs. \<not> in_bounds m i" by (auto simp add: i)
    from Cons.IH [OF this] True show ?thesis
      by (cases "getitem3 a d r c") (auto simp add: i getitem3_in_bounds)
  qed
qed

text \<open>
  C5, as the code has it. \<^verbatim>\<open>create_pruned_vector\<close> compares no sizes. For a volume with
  at least one voxel whose array has the shape of its frame of reference, and a present
  mask: if the dense mask's array is at least as large as the volume along every axis,
  a pruned vector is returned, also when the sizes disagree; if it is smaller along some
  axis, the call fails with IndexError.
\<close>

theorem prune_without_size_check:
  assumes sz: "size_xyz (frameofreference v) = (sx, sy, sz)"
    and va: "shape (array v) = (sz, sy, sx)"
    and ma: "shape (array (makeDenseMask m (frameofreference v))) = (mz, my, mx)"
    and ne: "0 < sx" "0 < sy" "0 < sz"
  shows "if sz \<le> mz \<and> sy \<le> my \<and> sx \<le> mx
         then \<exists>pv. create_pruned_vector v (Some m) = Inr pv
         else create_pruned_vector v (Some m) = Inl IndexError"
proof -
  let ?dm = "array (makeDenseMask m (frameofreference v))"
  let ?idxs = "voxel_indices (sx, sy, sz)"
  have run: "create_pruned_vector v (Some m) = prune_loop ?dm (array v) ?idxs []"
    by (simp add: create_pruned_vector_def sz)
  show ?thesis
  proof (cases "sz \<le> mz \<and> sy \<le> my \<and> sx \<le> mx")
    case True
    then have "\<forall>i \<in> set ?idxs. in_bounds ?dm i \<and> in_bounds (array v) i"
      by (auto simp add: set_voxel_indices in_bounds_def va ma)
    from prune_loop_in_bounds [OF this, of "[]"] True show ?thesis
      by (simp add: run)
  next
    case False
    have "(sz - 1, sy - 1, sx - 1) \<in> set ?idxs"
      using ne by (simp add: set_voxel_indices)
    moreover have "\<not> in_bounds ?dm (sz - 1, sy - 1, sx - 1)"
      using False ne by (auto simp add: in_bounds_def ma)
    ultimately have "\<exists>i \<in> set ?idxs. \<not> in_bounds ?dm i" by blast
    from prune_loop_out_of_bounds [OF this, of "array v" "[]"]
    obtain e where e: "prune_loop ?dm (array v) ?idxs [] = Inl e" by blast
    with prune_loop_error [OF e] False show ?thesis by (simp add: run)
  qed
qed

theorem prune_without_size_check_witness:
  "size_xyz (frameofreference example_volume) = (2, 1, 1)
   \<and> shape (array example_volume) = (1, 1, 2)
   \<and> shape (array (makeDenseMask wide_roi (frameofreference example_volume))) = (1, 1, 3)
   \<and> shape (array (makeDenseMask narrow_roi (frameofreference example_volume))) = (1, 1, 1)
   \<and> (\<exists>pv. create_pruned_vector example_volume (Some wide_roi) = Inr pv)
   \<and> create_pruned_vector example_volume (Some narrow_roi) = Inl IndexError"
proof -
  have h1: "size_xyz (frameofreference example_volume) = (2, 1, 1)"
    by (simp add: example_volume_def example_for_def)
  have h2: "shape (array example_volume) = (1, 1, 2)"
    by (simp add: example_volume_def)
  have h3: "shape (array (makeDenseMask wide_roi (frameofreference example_volume))) = (1, 1, 3)"
    by (simp add: wide_roi_def)
  have h4: "shape (array (makeDenseMask narrow_roi (frameofreference example_volume))) = (1, 1, 1)"
    by (simp add: narrow_roi_def)
  have pos: "(0::nat) < 2" "(0::nat) < 1" by simp_all
  from prune_without_size_check [OF h1 h2 h3 pos(1) pos(2) pos(2)]
  have wide: "\<exists>pv. create_pruned_vector example_volume (Some wide_roi) = Inr pv" by simp
  from prune_without_size_check [OF h1 h2 h4 pos(1) pos(2) pos(2)]
  have narrow: "create_pruned_vector example_volume (Some narrow_roi) = Inl IndexError" by simp
  from h1 h2 h3 h4 wide narrow show ?thesis by blast
qed

text \<open>
  C5, as stated, fails: the dense mask of \<open>wide_roi\<close> has a frame of reference of size
  (3, 1, 1) on a volume of size (2, 1, 1), and a pruned vector is returned.
\<close>

theorem oversized_mask_is_pruned:
  "size_xyz (frameofreference (makeDenseMask wide_roi (frameofreference example_volume)))
     \<noteq> size_xyz (frameofreference example_volume)
   \<and> create_pruned_vector example_volume (Some wide_roi) = Inr [10, 20]"
  by (simp add: wide_roi_def wide_for_def example_volume_def example_for_def
      create_pruned_vector_def voxel_indices_def getitem3_def upt_rec)

section \<open>Clustering engine: the checks on the arguments\<close>

lemma lower_literals:
  "lower ''ward'' = ''ward''" "lower ''cosine'' = ''cosine''" "lower ''WARD'' = ''ward''"
  by (simp_all add: lower_def lower_char_def)

text \<open>
  C3, as the code has it. On an input that is not a numpy array, the two agglomerative
  strategies fail with TypeError, and \<^verbatim>\<open>cluster_kmeans\<close> returns \<^verbatim>\<open>None\<close> without an
  error.
\<close>

theorem non_ndarray_input:
  assumes "\<not> is_ndarray feature_matrix"
  shows "cluster_hierarchical_sklearn same scaler agg feature_matrix nclusters affinity linkage
           = Inl TypeError
       \<and> cluster_hierarchical_scipy same' scaler' sch_linkage sch_fcluster feature_matrix
           nclusters' metric method = Inl TypeError
       \<and> cluster_kmeans scaler'' km feature_matrix nclusters'' eps njobs = Inr None"
  using assms
  by (cases feature_matrix)
     (simp_all add: cluster_hierarchical_sklearn_def cluster_hierarchical_scipy_def
        cluster_kmeans_def)

theorem non_ndarray_input_witness:
  "\<not> is_ndarray (ListObject [[1, 2], [3, 4 :: int]])
   \<and> cluster_hierarchical_sklearn is_cpython example_scaler example_agg
        (ListObject [[1, 2], [3, 4]]) 3 ''euclidean'' ''ward'' = Inl TypeError
   \<and> cluster_hierarchical_scipy is_cpython example_scaler example_sch_linkage example_sch_fcluster
        (ListObject [[1, 2], [3, 4]]) 3 ''euclidean'' ''ward'' = Inl TypeError
   \<and> cluster_kmeans example_scaler example_km (ListObject [[1, 2], [3, 4]]) 10 (1 / 10000) (- 2)
        = Inr None"
proof -
  have h: "\<not> is_ndarray (ListObject [[1, 2], [3, 4 :: int]])" by simp
  from non_ndarray_input [OF h] h show ?thesis by blast
qed

text \<open>
  C3, as stated, fails for \<^verbatim>\<open>cluster_kmeans\<close>: on \<^verbatim>\<open>None\<close>, which is not a numpy array,
  it returns \<^verbatim>\<open>None\<close> and raises nothing.
\<close>

theorem kmeans_returns_none:
  "\<not> is_ndarray (NoneObject :: int pyobject)
   \<and> cluster_kmeans example_scaler example_km NoneObject 10 (1 / 10000) (- 2) = Inr None"
  by (simp add: cluster_kmeans_def)

text \<open>
  C4, at the input \<^verbatim>\<open>affinity='cosine', linkage='ward'\<close> (and \<^verbatim>\<open>metric='cosine',
  method='ward'\<close>) on any numpy array, with CPython's identity of strings: the test
  \<^verbatim>\<open>linkage is 'ward'\<close> is false for the string that \<^verbatim>\<open>lower()\<close> returned, the metric is
  not replaced, and the library is called with \<open>cosine\<close> and \<open>ward\<close>.
\<close>

theorem ward_override_skipped:
  "cluster_hierarchical_sklearn is_cpython scaler agg (Ndarray X) nclusters ''cosine'' ''ward''
     = (case scaler X of Inl e \<Rightarrow> Inl e | Inr Xn \<Rightarrow> agg nclusters ''cosine'' ''ward'' Xn)
   \<and> cluster_hierarchical_scipy is_cpython scaler sch_linkage sch_fcluster (Ndarray X) nclusters
       ''cosine'' ''ward''
     = (case scaler X of Inl e \<Rightarrow> Inl e
        | Inr Xn \<Rightarrow>
            (case sch_linkage Xn ''ward'' ''cosine'' of Inl e \<Rightarrow> Inl e
             | Inr lm \<Rightarrow> (case sch_fcluster lm nclusters of Inl e \<Rightarrow> Inl e
                          | Inr prediction \<Rightarrow> Inr (prediction, lm))))"
  by (simp add: cluster_hierarchical_sklearn_def cluster_hierarchical_scipy_def lower_literals
      is_cpython_def scipy_hcluster_valid_methods_def scipy_hcluster_valid_metrics_def
      split: sum.splits)

text \<open>
  Were the two tests comparisons of values, ward would force the Euclidean metric for
  every valid metric, in both strategies.
\<close>

lemma ward_override_by_value_sklearn:
  "lower linkage = ''ward'' \<Longrightarrow>
   lower affinity \<in> set [''l1'', ''l2'', ''manhattan'', ''cosine'', ''euclidean''] \<Longrightarrow>
   cluster_hierarchical_sklearn is_by_value scaler agg (Ndarray X) nclusters affinity linkage
     = (case scaler X of Inl e \<Rightarrow> Inl e | Inr Xn \<Rightarrow> agg nclusters ''euclidean'' ''ward'' Xn)"
  by (simp add: cluster_hierarchical_sklearn_def is_by_value_def Let_def split: sum.splits)

lemma ward_override_by_value_scipy:
  "lower method = ''ward'' \<Longrightarrow> lower metric \<in> set scipy_hcluster_valid_metrics \<Longrightarrow>
   cluster_hierarchical_scipy is_by_value scaler sch_linkage sch_fcluster (Ndarray X) nclusters
       metric method
     = (case scaler X of Inl e \<Rightarrow> Inl e
        | Inr Xn \<Rightarrow>
            (case sch_linkage Xn ''ward'' ''euclidean'' of Inl e \<Rightarrow> Inl e
             | Inr lm \<Rightarrow> (case sch_fcluster lm nclusters of Inl e \<Rightarrow> Inl e
                          | Inr prediction \<Rightarrow> Inr (prediction, lm))))"
  by (simp add: cluster_hierarchical_scipy_def is_by_value_def scipy_hcluster_valid_methods_def
      Let_def split: sum.splits)

text \<open>
  A metric outside the valid set raises ValueError once the scaler has returned,
  whatever the linkage and whatever the reading of \<^verbatim>\<open>is\<close>.
\<close>

lemma invalid_affinity_raises:
  "lower affinity \<notin> set [''l1'', ''l2'', ''manhattan'', ''cosine'', ''euclidean''] \<Longrightarrow>
   scaler X = Inr Xn \<Longrightarrow>
   cluster_hierarchical_sklearn same scaler agg (Ndarray X) nclusters affinity linkage
     = Inl ValueError"
  by (simp add: cluster_hierarchical_sklearn_def Let_def)

lemma invalid_metric_raises:
  "lower metric \<notin> set scipy_hcluster_valid_metrics \<Longrightarrow>
   scaler X = Inr Xn \<Longrightarrow>
   cluster_hierarchical_scipy same scaler sch_linkage sch_fcluster (Ndarray X) nclusters
       metric method = Inl ValueError"
  by (simp add: cluster_hierarchical_scipy_def Let_def)

subsection \<open>The labels\<close>







section \<open>Feature matrix assembler: the reference frame\<close>

text \<open>
  On a list of volumes the scan ends with the first listed volume of least voxel
  volume: either the volume it started with, which nothing later undercuts, or a later
  one that undercuts everything before it and that nothing after it undercuts.
\<close>

lemma scan_first_min:
  "\<exists>v. scan_highest_res ext h b (voxel_volume ext (h (frameofreference b))) (map Some vs) = Inr v
     \<and> ((v = b \<and> (\<forall>u \<in> set vs. voxel_volume ext (h (frameofreference b))
                                  \<le> voxel_volume ext (h (frameofreference u))))
        \<or> (\<exists>pre post. vs = pre @ v # post
              \<and> voxel_volume ext (h (frameofreference v)) < voxel_volume ext (h (frameofreference b))
              \<and> (\<forall>u \<in> set pre. voxel_volume ext (h (frameofreference v))
                                  < voxel_volume ext (h (frameofreference u)))
              \<and> (\<forall>u \<in> set post. voxel_volume ext (h (frameofreference v))
                                  \<le> voxel_volume ext (h (frameofreference u)))))"
proof (induction vs arbitrary: b)
  case Nil
  then show ?case by simp
next
  case (Cons u vs)
  let ?vol = "\<lambda>x. voxel_volume ext (h (frameofreference x))"
  show ?case
  proof (cases "?vol u < ?vol b")
    case True
    from Cons.IH [of u] obtain v where run: "scan_highest_res ext h u (?vol u) (map Some vs) = Inr v"
      and alt: "(v = u \<and> (\<forall>w \<in> set vs. ?vol u \<le> ?vol w))
        \<or> (\<exists>pre post. vs = pre @ v # post \<and> ?vol v < ?vol u
              \<and> (\<forall>w \<in> set pre. ?vol v < ?vol w) \<and> (\<forall>w \<in> set post. ?vol v \<le> ?vol w))"
      by blast
    have run': "scan_highest_res ext h b (?vol b) (map Some (u # vs)) = Inr v"
      using True run by (simp add: Let_def)
    from alt show ?thesis
    proof
      assume a: "v = u \<and> (\<forall>w \<in> set vs. ?vol u \<le> ?vol w)"
      then have "u # vs = [] @ v # vs \<and> ?vol v < ?vol b
          \<and> (\<forall>w \<in> set []. ?vol v < ?vol w) \<and> (\<forall>w \<in> set vs. ?vol v \<le> ?vol w)"
        using True by simp
      with run' show ?thesis by blast
    next
      assume "\<exists>pre post. vs = pre @ v # post \<and> ?vol v < ?vol u
              \<and> (\<forall>w \<in> set pre. ?vol v < ?vol w) \<and> (\<forall>w \<in> set post. ?vol v \<le> ?vol w)"
      then obtain pre post where p: "vs = pre @ v # post" "?vol v < ?vol u"
        "\<forall>w \<in> set pre. ?vol v < ?vol w" "\<forall>w \<in> set post. ?vol v \<le> ?vol w"
        by blast
      then have "u # vs = (u # pre) @ v # post \<and> ?vol v < ?vol b
          \<and> (\<forall>w \<in> set (u # pre). ?vol v < ?vol w) \<and> (\<forall>w \<in> set post. ?vol v \<le> ?vol w)"
        using True by simp
      with run' show ?thesis by blast
    qed
  next
    case False
    from Cons.IH [of b] obtain v where run: "scan_highest_res ext h b (?vol b) (map Some vs) = Inr v"
      and alt: "(v = b \<and> (\<forall>w \<in> set vs. ?vol b \<le> ?vol w))
        \<or> (\<exists>pre post. vs = pre @ v # post \<and> ?vol v < ?vol b
              \<and> (\<forall>w \<in> set pre. ?vol v < ?vol w) \<and> (\<forall>w \<in> set post. ?vol v \<le> ?vol w))"
      by blast
    have run': "scan_highest_res ext h b (?vol b) (map Some (u # vs)) = Inr v"
      using False run by (simp add: Let_def)
    from alt show ?thesis
    proof
      assume "v = b \<and> (\<forall>w \<in> set vs. ?vol b \<le> ?vol w)"
      then have "v = b \<and> (\<forall>w \<in> set (u # vs). ?vol b \<le> ?vol w)"
        using False by simp
      with run' show ?thesis by blast
    next
      assume "\<exists>pre post. vs = pre @ v # post \<and> ?vol v < ?vol b
              \<and> (\<forall>w \<in> set pre. ?vol v < ?vol w) \<and> (\<forall>w \<in> set post. ?vol v \<le> ?vol w)"
      then obtain pre post where p: "vs = pre @ v # post" "?vol v < ?vol b"
        "\<forall>w \<in> set pre. ?vol v < ?vol w" "\<forall>w \<in> set post. ?vol v \<le> ?vol w"
        by blast
      then have "u # vs = (u # pre) @ v # post \<and> ?vol v < ?vol b
          \<and> (\<forall>w \<in> set (u # pre). ?vol v < ?vol w) \<and> (\<forall>w \<in> set post. ?vol v \<le> ?vol w)"
        using False by simp
      with run' show ?thesis by blast
    qed
  qed
qed

lemma find_first_min:
  assumes "vs \<noteq> []"
  shows "\<exists>pre v post. vs = pre @ v # post
      \<and> find_highest_res ext h (map Some vs) = Inr v
      \<and> (\<forall>u \<in> set pre. voxel_volume ext (h (frameofreference v))
                          < voxel_volume ext (h (frameofreference u)))
      \<and> (\<forall>u \<in> set post. voxel_volume ext (h (frameofreference v))
                          \<le> voxel_volume ext (h (frameofreference u)))"
proof -
  let ?vol = "\<lambda>x. voxel_volume ext (h (frameofreference x))"
  from assms obtain b rest where vs: "vs = b # rest" by (cases vs) auto
  from scan_first_min [of ext h b rest] obtain v
    where run: "scan_highest_res ext h b (?vol b) (map Some rest) = Inr v"
      and alt: "(v = b \<and> (\<forall>w \<in> set rest. ?vol b \<le> ?vol w))
        \<or> (\<exists>pre post. rest = pre @ v # post \<and> ?vol v < ?vol b
              \<and> (\<forall>w \<in> set pre. ?vol v < ?vol w) \<and> (\<forall>w \<in> set post. ?vol v \<le> ?vol w))"
    by blast
  have found: "find_highest_res ext h (map Some vs) = Inr v"
    using run by (simp add: vs find_highest_res_def)
  from alt show ?thesis
  proof
    assume "v = b \<and> (\<forall>w \<in> set rest. ?vol b \<le> ?vol w)"
    then have "vs = [] @ v # rest \<and> (\<forall>w \<in> set []. ?vol v < ?vol w)
        \<and> (\<forall>w \<in> set rest. ?vol v \<le> ?vol w)"
      by (simp add: vs)
    with found show ?thesis by blast
  next
    assume "\<exists>pre post. rest = pre @ v # post \<and> ?vol v < ?vol b
              \<and> (\<forall>w \<in> set pre. ?vol v < ?vol w) \<and> (\<forall>w \<in> set post. ?vol v \<le> ?vol w)"
    then obtain pre post where p: "rest = pre @ v # post" "?vol v < ?vol b"
      "\<forall>w \<in> set pre. ?vol v < ?vol w" "\<forall>w \<in> set post. ?vol v \<le> ?vol w"
      by blast
    then have "vs = (b # pre) @ v # post \<and> (\<forall>w \<in> set (b # pre). ?vol v < ?vol w)
        \<and> (\<forall>w \<in> set post. ?vol v \<le> ?vol w)"
      by (simp add: vs)
    with found show ?thesis by blast
  qed
qed

text \<open>An entry \<^verbatim>\<open>None\<close> at the head of the list ends the scan with AttributeError.\<close>

lemma find_highest_res_none:
  "find_highest_res ext h (None # rest) = Inl AttributeError"
  by (simp add: find_highest_res_def)


lemma create_feature_matrix_frame:
  "snd (create_feature_matrix ext h fvs roi PCA) = Inr (Some r) \<Longrightarrow>
   \<exists>h'. select_frameofreference ext h fvs roi = Inr (h', fst (snd r))"
  by (auto simp add: create_feature_matrix_def Let_def
      split: if_splits sum.splits prod.splits)

lemma unit_spacing_frame:
  "(f :: frameofreference)\<lparr>spacing := (1, 1, 1)\<rparr> = \<lparr>size_xyz = size_xyz f, spacing = (1, 1, 1)\<rparr>"
  by (cases f) simp

text \<open>
  C6, as the code has it. The voxel volume is the product of the three spacing
  components as numpy computes it. For every non-empty list of volumes and no ROI, the
  frame of reference chosen is that of the first listed volume \<open>v\<close> whose voxel volume
  is least: smaller than that of every volume before it, not larger than that of any
  volume after it. Its spacing is then (1, 1, 1), in the frame that
  \<^verbatim>\<open>create_feature_matrix\<close> returns. Every list of the same volumes, in any order, gives
  the same choice when no volume on another frame of reference has a voxel volume as
  small.
\<close>

theorem reference_is_first_of_least_voxel_volume:
  assumes ne: "vs \<noteq> []"
  shows "voxel_volume ext \<lparr>size_xyz = s, spacing = (a, b, c)\<rparr>
           = float_round ext (float_round ext (a * b) * c)
    \<and> (\<exists>pre v post. vs = pre @ v # post
      \<and> (\<forall>u \<in> set pre. voxel_volume ext (h (frameofreference v))
                          < voxel_volume ext (h (frameofreference u)))
      \<and> (\<forall>u \<in> set post. voxel_volume ext (h (frameofreference v))
                          \<le> voxel_volume ext (h (frameofreference u)))
      \<and> select_frameofreference ext h (map Some vs) None
          = Inr (h(frameofreference v :=
                     \<lparr>size_xyz = size_xyz (h (frameofreference v)), spacing = (1, 1, 1)\<rparr>),
                 \<lparr>size_xyz = size_xyz (h (frameofreference v)), spacing = (1, 1, 1)\<rparr>)
      \<and> (\<forall>r. snd (create_feature_matrix ext h (map Some vs) None PCA) = Inr (Some r)
            \<longrightarrow> fst (snd r) = \<lparr>size_xyz = size_xyz (h (frameofreference v)), spacing = (1, 1, 1)\<rparr>)
      \<and> (\<forall>vs'. set vs' = set vs
            \<and> (\<forall>u \<in> set vs.
                  voxel_volume ext (h (frameofreference u))
                    \<le> voxel_volume ext (h (frameofreference v))
                  \<longrightarrow> frameofreference u = frameofreference v)
            \<longrightarrow> select_frameofreference ext h (map Some vs') None
                  = select_frameofreference ext h (map Some vs) None))"
proof -
  let ?vol = "\<lambda>x. voxel_volume ext (h (frameofreference x))"
  have pin: "voxel_volume ext \<lparr>size_xyz = s, spacing = (a, b, c)\<rparr>
           = float_round ext (float_round ext (a * b) * c)"
    by (simp add: voxel_volume_def)
  from find_first_min [OF ne, of ext h] obtain pre v post where dec: "vs = pre @ v # post"
    and found: "find_highest_res ext h (map Some vs) = Inr v"
    and before: "\<forall>u \<in> set pre. ?vol v < ?vol u"
    and after: "\<forall>u \<in> set post. ?vol v \<le> ?vol u"
    by blast
  let ?a = "frameofreference v"
  let ?f = "\<lparr>size_xyz = size_xyz (h ?a), spacing = (1, 1, 1)\<rparr>"
  have sel: "select_frameofreference ext h (map Some vs) None = Inr (h(?a := ?f), ?f)"
    by (simp add: select_frameofreference_def found Let_def unit_spacing_frame)
  have fr: "fst (snd r) = ?f"
    if "snd (create_feature_matrix ext h (map Some vs) None PCA) = Inr (Some r)" for r
    using create_feature_matrix_frame [OF that] by (simp add: sel)
  have least: "\<forall>u \<in> set vs. ?vol v \<le> ?vol u"
    using before after by (auto simp add: dec)
  have ord: "select_frameofreference ext h (map Some vs') None
               = select_frameofreference ext h (map Some vs) None"
    if same: "set vs' = set vs"
      and uniq: "\<forall>u \<in> set vs. ?vol u \<le> ?vol v \<longrightarrow> frameofreference u = frameofreference v"
    for vs'
  proof -
    from same ne have "vs' \<noteq> []" by auto
    from find_first_min [OF this, of ext h] obtain pre' v' post' where dec': "vs' = pre' @ v' # post'"
      and found': "find_highest_res ext h (map Some vs') = Inr v'"
      and before': "\<forall>u \<in> set pre'. ?vol v' < ?vol u"
      and after': "\<forall>u \<in> set post'. ?vol v' \<le> ?vol u"
      by blast
    have "\<forall>u \<in> set vs'. ?vol v' \<le> ?vol u"
      using before' after' by (auto simp add: dec')
    moreover have "v \<in> set vs'" using same dec by simp
    ultimately have "?vol v' \<le> ?vol v" by blast
    moreover have "v' \<in> set vs" using same dec' by auto
    ultimately have "frameofreference v' = frameofreference v" using uniq by blast
    then show ?thesis
      by (simp add: select_frameofreference_def found found' Let_def)
  qed
  from pin dec before after sel fr ord show ?thesis by blast
qed

lemma example_voxel_volumes:
  "voxel_volume example_ext (two_store (frameofreference coarse_input)) = 9"
  "voxel_volume example_ext (two_store (frameofreference fine_input)) = 2"
  by (simp_all add: voxel_volume_def example_ext_def two_store_def coarse_input_def
      fine_input_def)

lemma two_volumes_split:
  "[x, y] = pre @ v # post \<longleftrightarrow> (pre = [] \<and> v = x \<and> post = [y]) \<or> (pre = [x] \<and> v = y \<and> post = [])"
  by (cases pre; cases "tl pre") (auto simp add: Cons_eq_append_conv)

theorem reference_is_first_of_least_voxel_volume_witness:
  "[coarse_input, fine_input] \<noteq> []
   \<and> voxel_volume example_ext \<lparr>size_xyz = (2, 1, 1), spacing = (1, 3, 3)\<rparr> = 9
   \<and> select_frameofreference example_ext two_store (map Some [coarse_input, fine_input]) None
       = Inr (two_store(1 := \<lparr>size_xyz = (4, 4, 4), spacing = (1, 1, 1)\<rparr>),
              \<lparr>size_xyz = (4, 4, 4), spacing = (1, 1, 1)\<rparr>)
   \<and> select_frameofreference example_ext two_store (map Some [fine_input, coarse_input]) None
       = select_frameofreference example_ext two_store (map Some [coarse_input, fine_input]) None"
proof -
  let ?vol = "\<lambda>x. voxel_volume example_ext (two_store (frameofreference x))"
  have ne: "[coarse_input, fine_input] \<noteq> []" by simp
  from reference_is_first_of_least_voxel_volume [OF ne, of example_ext "(2, 1, 1)" 1 3 3 two_store False]
  obtain pre v post where pin: "voxel_volume example_ext \<lparr>size_xyz = (2, 1, 1), spacing = (1, 3, 3)\<rparr>
           = float_round example_ext (float_round example_ext (1 * 3) * 3)"
    and dec: "[coarse_input, fine_input] = pre @ v # post"
    and before: "\<forall>u \<in> set pre. ?vol v < ?vol u"
    and after: "\<forall>u \<in> set post. ?vol v \<le> ?vol u"
    and sel: "select_frameofreference example_ext two_store (map Some [coarse_input, fine_input]) None
          = Inr (two_store(frameofreference v :=
                     \<lparr>size_xyz = size_xyz (two_store (frameofreference v)), spacing = (1, 1, 1)\<rparr>),
                 \<lparr>size_xyz = size_xyz (two_store (frameofreference v)), spacing = (1, 1, 1)\<rparr>)"
    and ord: "\<forall>vs'. set vs' = set [coarse_input, fine_input]
            \<and> (\<forall>u \<in> set [coarse_input, fine_input]. ?vol u \<le> ?vol v
                  \<longrightarrow> frameofreference u = frameofreference v)
            \<longrightarrow> select_frameofreference example_ext two_store (map Some vs') None
                  = select_frameofreference example_ext two_store
                      (map Some [coarse_input, fine_input]) None"
    by blast
  from dec after have fine: "v = fine_input"
    by (auto simp add: two_volumes_split example_voxel_volumes)
  have p: "voxel_volume example_ext \<lparr>size_xyz = (2, 1, 1), spacing = (1, 3, 3)\<rparr> = 9"
    using pin by (simp add: example_ext_def)
  have a: "select_frameofreference example_ext two_store (map Some [coarse_input, fine_input]) None
       = Inr (two_store(1 := \<lparr>size_xyz = (4, 4, 4), spacing = (1, 1, 1)\<rparr>),
              \<lparr>size_xyz = (4, 4, 4), spacing = (1, 1, 1)\<rparr>)"
    using sel by (simp add: fine fine_input_def two_store_def)
  have "set [fine_input, coarse_input] = set [coarse_input, fine_input]" by auto
  moreover have "\<forall>u \<in> set [coarse_input, fine_input]. ?vol u \<le> ?vol v
      \<longrightarrow> frameofreference u = frameofreference v"
    by (simp add: fine example_voxel_volumes)
  ultimately have b: "select_frameofreference example_ext two_store
        (map Some [fine_input, coarse_input]) None
       = select_frameofreference example_ext two_store (map Some [coarse_input, fine_input]) None"
    using ord by blast
  from ne p a b show ?thesis by blast
qed

text \<open>
  C6, as stated, fails on a tie: with the same spacing (1, 1, 1) on two frames of
  reference of different sizes, the frame chosen is that of the volume listed first, so
  the two orders of the list give different frames.
\<close>

theorem tie_choice_depends_on_order:
  "select_frameofreference example_ext tie_store (map Some [coarse_input, fine_input]) None
     = Inr (tie_store(0 := \<lparr>size_xyz = (2, 1, 1), spacing = (1, 1, 1)\<rparr>),
            \<lparr>size_xyz = (2, 1, 1), spacing = (1, 1, 1)\<rparr>)
   \<and> select_frameofreference example_ext tie_store (map Some [fine_input, coarse_input]) None
     = Inr (tie_store(1 := \<lparr>size_xyz = (4, 4, 4), spacing = (1, 1, 1)\<rparr>),
            \<lparr>size_xyz = (4, 4, 4), spacing = (1, 1, 1)\<rparr>)"
  by (simp add: select_frameofreference_def find_highest_res_def voxel_volume_def example_ext_def
      tie_store_def coarse_input_def fine_input_def Let_def)

section \<open>Feature matrix assembler: what the call changes\<close>




section \<open>Feature matrix assembler: every volume rejected\<close>

lemma conform_loop_all_rejected:
  "\<forall>x \<in> set fvs. rejected ext h fref x \<Longrightarrow> conform_loop ext h fref roi fvs acc = Inr acc"
proof (induction fvs)
  case Nil
  then show ?case by simp
next
  case (Cons x fvs)
  obtain c d l where acc: "acc = (c, d, l)" by (cases acc) auto
  from Cons show ?case
    by (cases x) (auto simp add: rejected_def acc Let_def split: sum.splits)
qed

text \<open>
  C10. With an ROI, a non-empty list in which every entry is rejected (it is \<^verbatim>\<open>None\<close>, or
  its resampled shape is not the reference shape) makes \<^verbatim>\<open>create_feature_matrix\<close> raise
  the ValueError of concatenating an empty list, where the empty list makes it return
  \<^verbatim>\<open>None\<close>.
\<close>

theorem total_rejection_raises:
  assumes ne: "fvs \<noteq> []"
    and rej: "\<forall>x \<in> set fvs. rejected ext h (roi_frameofreference m) x"
  shows "create_feature_matrix ext h fvs (Some m) PCA = (h, Inl ValueError)
       \<and> create_feature_matrix ext h [] (Some m) PCA = (h, Inr None)"
  using ne conform_loop_all_rejected [OF rej]
  by (simp add: create_feature_matrix_def select_frameofreference_def concatenate_axis1_def)

theorem total_rejection_raises_witness:
  "[None, Some example_input] \<noteq> []
   \<and> rejected example_ext example_store (roi_frameofreference wide_roi) None
   \<and> rejected example_ext example_store (roi_frameofreference wide_roi) (Some example_input)
   \<and> create_feature_matrix example_ext example_store [None, Some example_input] (Some wide_roi) False
       = (example_store, Inl ValueError)
   \<and> create_feature_matrix example_ext example_store [] (Some wide_roi) False
       = (example_store, Inr None)"
proof -
  have ne: "[None, Some example_input] \<noteq> []" by simp
  have r1: "rejected example_ext example_store (roi_frameofreference wide_roi) None"
    by (simp add: rejected_def)
  have r2: "rejected example_ext example_store (roi_frameofreference wide_roi) (Some example_input)"
    by (simp add: rejected_def example_ext_def wide_roi_def wide_for_def load_def example_input_def)
  from r1 r2 have rej: "\<forall>x \<in> set [None, Some example_input].
         rejected example_ext example_store (roi_frameofreference wide_roi) x"
    by simp
  from total_rejection_raises [OF ne rej, of False] ne r1 r2 show ?thesis by blast
qed

section \<open>Subject work unit: the status codes\<close>




text \<open>The steps of the first run on the example subject.\<close>

lemma example_assemble:
  "create_feature_matrix example_ext example_store (map Some [example_input, example_input])
     (Some example_roi) False
   = (example_store,
      Inr (Some ([[10, 10]], example_for, [[10, 10], [20, 20]], [''feature'', ''feature''])))"
  by (simp add: create_feature_matrix_def select_frameofreference_def example_ext_def
      example_roi_def example_for_def example_input_def load_def create_pruned_vector_def
      voxel_indices_def getitem3_def concatenate_axis1_def upt_rec Let_def)

lemma example_cluster:
  "cluster_kmeans example_scaler example_km (Ndarray [[10, 10]]) 20 (1 / 10000) 1 = Inr (Some [0])"
  by (simp add: cluster_kmeans_def example_scaler_def example_km_def)

lemma example_expand:
  "expand_pruned_vector (Vector [0]) (Some example_roi) example_for (- 1)
     = Inr example_cluster_volume"
  by (simp add: expand_pruned_vector_def example_roi_def example_for_def voxel_indices_def
      getitem3_def np_array_def fromArray_def example_cluster_volume_def upt_rec Let_def)

lemma example_paths:
  "path_join ''clusters'' ''doi01'' = ''clusters/doi01''"
  "ancestors ''clusters/doi01'' = [''clusters'']"
  "dirname ''clusters/doi01/l1.pickle'' = ''clusters/doi01''"
  "dirname ''clusters/doi01/l1_features.pickle'' = ''clusters/doi01''"
  "dirname ''clusters/doi01'' = ''clusters''"
  "dirname ''elsewhere/l1.pickle'' = ''elsewhere''"
  by (simp_all add: path_join_def ancestors_def dirname_def)



text \<open>
  A write that fails ends the run with its exception, not with a code: the feature
  pickle cannot be written to a path that is a directory, nor the cluster pickle into a
  directory that does not exist.
\<close>

lemma write_to_directory_raises:
  "snd (DOICluster example_ext example_scaler example_km example_io example_world
          (OneDoi clashing_subject) [''glcm''] 20 False)
     = Inl (OtherException ''IsADirectoryError'')"
proof -
  have loop: "subject_loop example_io example_world False [''glcm''] [clashing_subject] ([], None)
      = Inr (Inr ([example_input, example_input],
           Some \<lparr>roi_var = example_roi,
                 p_doi_clusters = ''clusters/doi01'',
                 p_clusters_l1_pickle = ''clusters/doi01/l1.pickle'',
                 p_features_pickle = ''clusters/doi01'',
                 reclustered = False\<rparr>))"
    by (simp add: clashing_subject_def example_subject_def example_io_def example_world_def
        path_exists_def example_paths Let_def)
  have persist: "snd (cluster_and_persist example_ext example_scaler example_km example_world
        [example_input, example_input]
           \<lparr>roi_var = example_roi,
                 p_doi_clusters = ''clusters/doi01'',
                 p_clusters_l1_pickle = ''clusters/doi01/l1.pickle'',
                 p_features_pickle = ''clusters/doi01'',
                 reclustered = False\<rparr> 20)
      = Inl (OtherException ''IsADirectoryError'')"
    using example_assemble
    by (simp add: cluster_and_persist_def example_cluster example_expand makedirs_def
        toPickle_def open_wb_def is_directory_def example_world_def example_paths)
  show ?thesis
    by (simp add: DOICluster_def loop persist del: subject_loop.simps)
qed

lemma write_without_directory_raises:
  "snd (DOICluster example_ext example_scaler example_km example_io example_world
          (OneDoi stray_subject) [''glcm''] 20 False)
     = Inl (OtherException ''FileNotFoundError'')"
proof -
  have loop: "subject_loop example_io example_world False [''glcm''] [stray_subject] ([], None)
      = Inr (Inr ([example_input, example_input],
           Some \<lparr>roi_var = example_roi,
                 p_doi_clusters = ''clusters/doi01'',
                 p_clusters_l1_pickle = ''elsewhere/l1.pickle'',
                 p_features_pickle = ''clusters/doi01/l1_features.pickle'',
                 reclustered = False\<rparr>))"
    by (simp add: stray_subject_def example_subject_def example_io_def example_world_def
        path_exists_def example_paths Let_def)
  have persist: "snd (cluster_and_persist example_ext example_scaler example_km example_world
        [example_input, example_input]
           \<lparr>roi_var = example_roi,
                 p_doi_clusters = ''clusters/doi01'',
                 p_clusters_l1_pickle = ''elsewhere/l1.pickle'',
                 p_features_pickle = ''clusters/doi01/l1_features.pickle'',
                 reclustered = False\<rparr> 20)
      = Inl (OtherException ''FileNotFoundError'')"
    using example_assemble
    by (simp add: cluster_and_persist_def example_cluster example_expand makedirs_def
        toPickle_def open_wb_def is_directory_def example_world_def example_paths)
  show ?thesis
    by (simp add: DOICluster_def loop persist del: subject_loop.simps)
qed

section \<open>Batch orchestrator: the worker's report\<close>

text \<open>
  C9, as the code has it. For every tuple of three values the worker runs the work unit
  once. If the unit returns, or raises an exception that derives from \<^verbatim>\<open>Exception\<close>, the
  worker returns a tuple: the code and label 2 "exception" for an exception, the codes
  0, 1, 10 and 11 with the labels "success", "missing data", "skipped" and "recalc", and
  -1 "unknown" for every other code, followed by the formatted elapsed time and the
  first value of the tuple. An exception that does not derive from \<^verbatim>\<open>Exception\<close> leaves
  the worker. For a tuple of more than three values the call of the unit raises
  TypeError, and the worker returns 2 "exception" without running the unit.
\<close>

theorem worker_reports_on_triples:
  "worker_DOICluster unit strftime t0 t1 w (Tuple (doi # defs # k # extra)) =
     (if extra \<noteq> [] then (w, Inr (2, ''exception'', strftime (t1 - t0), doi))
      else
        (case unit w doi defs k True of
           (w', Inl e) \<Rightarrow>
             if is_exception e then (w', Inr (2, ''exception'', strftime (t1 - t0), doi))
             else (w', Inl e)
         | (w', Inr c) \<Rightarrow>
             (w', Inr (if c = 0 then (0, ''success'', strftime (t1 - t0), doi)
                       else if c = 1 then (1, ''missing data'', strftime (t1 - t0), doi)
                       else if c = 10 then (10, ''skipped'', strftime (t1 - t0), doi)
                       else if c = 11 then (11, ''recalc'', strftime (t1 - t0), doi)
                       else (- 1, ''unknown'', strftime (t1 - t0), doi)))))"
  by (cases "unit w doi defs k True")
     (auto simp add: worker_DOICluster_def Let_def split: sum.splits)

theorem worker_reports_on_triples_witness:
  "worker_DOICluster (\<lambda>w doi defs k recluster. (w, Inr 7)) (\<lambda>t. ''00:00:02'') 5 7 ()
       (Tuple [''doi01'', ''glcm'', ''20''])
     = ((), Inr (- 1, ''unknown'', ''00:00:02'', ''doi01''))
   \<and> worker_DOICluster (\<lambda>w doi defs k recluster. (w, Inl ValueError)) (\<lambda>t. ''00:00:02'') 5 7 ()
       (Tuple [''doi01'', ''glcm'', ''20''])
     = ((), Inr (2, ''exception'', ''00:00:02'', ''doi01''))
   \<and> worker_DOICluster (\<lambda>w doi defs k recluster. (w, Inr 11)) (\<lambda>t. ''00:00:02'') 5 7 ()
       (Tuple [''doi01'', ''glcm'', ''20''])
     = ((), Inr (11, ''recalc'', ''00:00:02'', ''doi01''))
   \<and> worker_DOICluster (\<lambda>w doi defs k recluster. (w, Inr 0)) (\<lambda>t. ''00:00:02'') 5 7 ()
       (Tuple [''doi01'', ''glcm'', ''20'', ''True''])
     = ((), Inr (2, ''exception'', ''00:00:02'', ''doi01''))"
  using worker_reports_on_triples [of "\<lambda>w doi defs k recluster. (w, Inr 7)" "\<lambda>t. ''00:00:02''" 5 7
      "()" "''doi01''" "''glcm''" "''20''" "[]"]
    worker_reports_on_triples [of "\<lambda>w doi defs k recluster. (w, Inl ValueError)"
      "\<lambda>t. ''00:00:02''" 5 7 "()" "''doi01''" "''glcm''" "''20''" "[]"]
    worker_reports_on_triples [of "\<lambda>w doi defs k recluster. (w, Inr 11)" "\<lambda>t. ''00:00:02''" 5 7
      "()" "''doi01''" "''glcm''" "''20''" "[]"]
    worker_reports_on_triples [of "\<lambda>w doi defs k recluster. (w, Inr 0)" "\<lambda>t. ''00:00:02''" 5 7
      "()" "''doi01''" "''glcm''" "''20''" "[''True'']"]
  by simp

text \<open>
  C9, as stated, fails. On a tuple of two values the unpacking fails inside the
  \<^verbatim>\<open>try\<close>, the handler sets the code, and the \<^verbatim>\<open>return\<close> reads the name \<^verbatim>\<open>doi\<close> that
  was never bound: the worker raises UnboundLocalError and returns no tuple. And a
  \<^verbatim>\<open>SystemExit\<close> of the work unit is not caught.
\<close>

theorem worker_raises_on_short_tuple:
  "worker_DOICluster (\<lambda>w doi defs k recluster. (w, Inr 0)) (\<lambda>t. ''00:00:02'') 5 7 ()
       (Tuple [''doi01'', ''glcm''])
     = ((), Inl UnboundLocalError)
   \<and> worker_DOICluster (\<lambda>w doi defs k recluster. (w, Inl SystemExit)) (\<lambda>t. ''00:00:02'') 5 7 ()
       (Tuple [''doi01'', ''glcm'', ''20''])
     = ((), Inl SystemExit)"
  by (simp add: worker_DOICluster_def)

text \<open>
  Every tuple of fewer than three values, and every object that cannot be sliced, ends
  the worker with UnboundLocalError, whatever the work unit.
\<close>

lemma worker_raises_without_doi:
  "length vals < 3 \<Longrightarrow>
   worker_DOICluster unit strftime t0 t1 w (Tuple vals) = (w, Inl UnboundLocalError)"
  "worker_DOICluster unit strftime t0 t1 w NotSubscriptable = (w, Inl UnboundLocalError)"
proof -
  show "worker_DOICluster unit strftime t0 t1 w NotSubscriptable = (w, Inl UnboundLocalError)"
    by (simp add: worker_DOICluster_def)
  assume "length vals < 3"
  then consider "vals = []" | x where "vals = [x]" | x y where "vals = [x, y]"
    by (cases vals; cases "tl vals"; cases "tl (tl vals)") auto
  then show "worker_DOICluster unit strftime t0 t1 w (Tuple vals) = (w, Inl UnboundLocalError)"
    by cases (simp_all add: worker_DOICluster_def)
qed

end
